theory Spec2Isabelle
  imports Complex_Main "HOL-Library.AList"
begin

section \<open>Kinds, errors, tokens and opcodes\<close>

text \<open>The enumeration \<open>_Kind\<close> of the calculator core; \<open>identifierKind\<close> is \<open>_Kind.identifier\<close>.\<close>

datatype Kind =
    numberLiteral | opAdd | opSubtract | opMultiply | opDivide | opPower
  | identifierKind | opAssign | openBracket | closeBracket

text \<open>
  Everything the code can throw.  \<open>CalculationException message\<close> and
  \<open>CalculationParseException message buffer offset\<close> are the two exception
  classes of the source (buffer and offset are optional constructor arguments);
  \<open>TypeError\<close> is the exception the JavaScript engine raises when a property
  of \<open>null\<close> or \<open>undefined\<close> is read or written, or when \<open>undefined\<close> is called.
  \<open>IllTyped\<close> is not an exception of the code: it marks the one place where
  the model stops, an opcode whose value is not of the type that the rule of
  its kind expects (see \<open>perform\<close>).
\<close>

datatype error =
    CalculationException string
  | CalculationParseException string "string option" "nat option"
  | TypeError
  | IllTyped

text \<open>
  A \<open>_Token\<close> has a kind and a value that is \<open>null\<close> or a string.  An
  \<open>_Opcode\<close> has a kind and a value that is \<open>null\<close>, a string or a number;
  \<open>'n\<close> is the type of numbers.
\<close>

datatype Token = Token (tkind: Kind) (tvalue: "string option")

datatype 'n opval = VNull | VStr string | VNum 'n

datatype 'n Opcode = Opcode (okind: Kind) (ovalue: "'n opval")

text \<open>
  The numbers of the source are IEEE doubles.  Their arithmetic is a parameter
  of the model: a record of the operators the code applies to numbers.
  \<open>js_parse\<close> is the unary plus applied to a string (\<open>+token.value\<close>),
  \<open>js_zero\<close> and \<open>js_one\<close> are the literals \<open>0\<close> and \<open>1\<close>.
\<close>

record 'n arith =
  js_add :: "'n \<Rightarrow> 'n \<Rightarrow> 'n"
  js_neg :: "'n \<Rightarrow> 'n"
  js_mul :: "'n \<Rightarrow> 'n \<Rightarrow> 'n"
  js_div :: "'n \<Rightarrow> 'n \<Rightarrow> 'n"
  js_pow :: "'n \<Rightarrow> 'n \<Rightarrow> 'n"
  js_parse :: "string \<Rightarrow> 'n"
  js_zero :: "'n"
  js_one :: "'n"

section \<open>The tokenizer\<close>

text \<open>
  \<open>_KindDefinition\<close>: the kind and its symbol (\<open>null\<close> for the two pattern
  kinds).  The \<open>perform\<close> and \<open>toOpcode\<close> members are the functions
  \<open>perform\<close> and \<open>toOpcode\<close> below, which dispatch on the kind.
\<close>

datatype KindDefinition = KindDefinition (dkind: Kind) (symbol: "string option")

definition tokenDefinitions :: "KindDefinition list" where
  "tokenDefinitions =
    [ KindDefinition opAdd (Some ''+''),
      KindDefinition opSubtract (Some ''-''),
      KindDefinition opMultiply (Some ''*''),
      KindDefinition opDivide (Some ''/''),
      KindDefinition opPower (Some ''**''),
      KindDefinition numberLiteral None,
      KindDefinition identifierKind None,
      KindDefinition opAssign (Some ''=''),
      KindDefinition openBracket (Some ''(''),
      KindDefinition closeBracket (Some '')'') ]"

text \<open>
  \<open>_startCharacterTokens.get(c)\<close>: the definitions with a symbol that starts
  with \<open>c\<close>, in table order; \<open>undefined\<close> (here \<open>None\<close>) when there is none.
\<close>

definition startCharacterTokens :: "char \<Rightarrow> KindDefinition list option" where
  "startCharacterTokens c =
     (case filter (\<lambda>d. case symbol d of None \<Rightarrow> False | Some s \<Rightarrow> s \<noteq> [] \<and> hd s = c)
             tokenDefinitions of
        [] \<Rightarrow> None
      | ds \<Rightarrow> Some ds)"

text \<open>\<open>buffer.startsWith(s, i)\<close>.\<close>

definition startsWith :: "string \<Rightarrow> string \<Rightarrow> nat \<Rightarrow> bool" where
  "startsWith buffer s i = (take (length s) (drop i buffer) = s)"

text \<open>The loop of \<open>_findToken\<close>, with the running \<open>match\<close>.\<close>

fun findToken_loop ::
  "KindDefinition list \<Rightarrow> string \<Rightarrow> nat \<Rightarrow> KindDefinition option \<Rightarrow> KindDefinition option"
where
  "findToken_loop [] buffer i match = match"
| "findToken_loop (d # ds) buffer i match =
     findToken_loop ds buffer i
       (case symbol d of
          None \<Rightarrow> match
        | Some s \<Rightarrow>
            if s \<noteq> [] \<and> startsWith buffer s i \<and>
               (case match of
                  None \<Rightarrow> True
                | Some m \<Rightarrow> length (case symbol m of None \<Rightarrow> [] | Some ms \<Rightarrow> ms) < length s)
            then Some d else match)"

definition findToken :: "KindDefinition list option \<Rightarrow> string \<Rightarrow> nat \<Rightarrow> KindDefinition option" where
  "findToken candidates buffer i =
     (case candidates of None \<Rightarrow> None | Some ds \<Rightarrow> findToken_loop ds buffer i None)"

text \<open>
  The two sticky regular expressions of \<open>_patternTokens\<close>, each as the function
  that returns the text matched at the start of the given rest of the buffer.
  \<open>\d\<close> is \<open>[0-9]\<close>.  Number: \<open>(?:0|[1-9]\d*)(?:\.\d+)?(?:[eE][+-]?\d+)?\<close>;
  the two optional groups are greedy.  Identifier: \<open>[_a-zA-Z][_a-zA-Z0-9]*\<close>.
\<close>

definition isDigit :: "char \<Rightarrow> bool" where
  "isDigit c = (c \<in> set ''0123456789'')"

definition isIdentStart :: "char \<Rightarrow> bool" where
  "isIdentStart c = (c \<in> set ''_abcdefghijklmnopqrstuvwxyzABCDEFGHIJKLMNOPQRSTUVWXYZ'')"

definition reIntegerPart :: "string \<Rightarrow> string option" where
  "reIntegerPart s =
     (case s of
        [] \<Rightarrow> None
      | c # rest \<Rightarrow>
          if c = CHR ''0'' then Some [c]
          else if isDigit c then Some (c # takeWhile isDigit rest)
          else None)"

definition reFraction :: "string \<Rightarrow> string" where
  "reFraction s =
     (case s of
        c # d # rest \<Rightarrow>
          if c = CHR ''.'' \<and> isDigit d then c # d # takeWhile isDigit rest else []
      | _ \<Rightarrow> [])"

definition reExponent :: "string \<Rightarrow> string" where
  "reExponent s =
     (case s of
        [] \<Rightarrow> []
      | e # rest \<Rightarrow>
          if e = CHR ''e'' \<or> e = CHR ''E'' then
            (case rest of
               [] \<Rightarrow> []
             | g # rest' \<Rightarrow>
                 if (g = CHR ''+'' \<or> g = CHR ''-'') \<and> rest' \<noteq> [] \<and> isDigit (hd rest')
                 then e # g # takeWhile isDigit rest'
                 else if isDigit g then e # takeWhile isDigit rest
                 else [])
          else [])"

definition reNumber :: "string \<Rightarrow> string option" where
  "reNumber s =
     (case reIntegerPart s of
        None \<Rightarrow> None
      | Some ip \<Rightarrow>
          let fp = reFraction (drop (length ip) s);
              ep = reExponent (drop (length ip + length fp) s)
          in Some (ip @ fp @ ep))"

definition reIdentifier :: "string \<Rightarrow> string option" where
  "reIdentifier s =
     (case s of
        [] \<Rightarrow> None
      | c # rest \<Rightarrow>
          if isIdentStart c
          then Some (c # takeWhile (\<lambda>x. isIdentStart x \<or> isDigit x) rest)
          else None)"

definition patternTokens :: "(Kind \<times> (string \<Rightarrow> string option)) list" where
  "patternTokens = [(numberLiteral, reNumber), (identifierKind, reIdentifier)]"

text \<open>
  The inner loop of \<open>_tokenize\<close> over the pattern kinds: the first pattern that
  matches at \<open>i\<close> gives the kind and the matched text.
\<close>

fun matchPattern ::
  "(Kind \<times> (string \<Rightarrow> string option)) list \<Rightarrow> string \<Rightarrow> nat \<Rightarrow> (Kind \<times> string) option"
where
  "matchPattern [] buffer i = None"
| "matchPattern ((k, re) # ps) buffer i =
     (case re (drop i buffer) of
        Some m \<Rightarrow> Some (k, m)
      | None \<Rightarrow> matchPattern ps buffer i)"

text \<open>Decimal digits of an index, for the message of the parse exception.\<close>

fun showNat :: "nat \<Rightarrow> string" where
  "showNat n =
     (if n < 10 then [''0123456789'' ! n]
      else showNat (n div 10) @ [''0123456789'' ! (n mod 10)])"

definition strangeCharacter :: "string \<Rightarrow> nat \<Rightarrow> error" where
  "strangeCharacter buffer i =
     CalculationParseException
       (''Found a strange character in the source at '' @ showNat i @ '': '' @ [buffer ! i])
       (Some buffer) (Some i)"

text \<open>
  \<open>_tokenize\<close>, from index \<open>i\<close> on.  The generator is consumed by
  \<open>Array.from\<close>, so the result is the list of all tokens, or the exception
  thrown on the way.  The index moves by \<open>i += length - 1\<close> and the \<open>++i\<close>
  of the loop header.
\<close>

function tokenize_from :: "string \<Rightarrow> nat \<Rightarrow> error + Token list" where
  "tokenize_from buffer i =
     (if i < length buffer then
        let c = buffer ! i in
        if c = CHR '' '' then tokenize_from buffer (i + 1)
        else
          (case findToken (startCharacterTokens c) buffer i of
             None \<Rightarrow>
               (case matchPattern patternTokens buffer i of
                  None \<Rightarrow> Inl (strangeCharacter buffer i)
                | Some (k, m) \<Rightarrow>
                    (case tokenize_from buffer (i + (length m - 1) + 1) of
                       Inl e \<Rightarrow> Inl e
                     | Inr ts \<Rightarrow> Inr (Token k (Some m) # ts)))
           | Some single \<Rightarrow>
               (case tokenize_from buffer
                       (i + (length (case symbol single of None \<Rightarrow> [] | Some s \<Rightarrow> s) - 1) + 1) of
                  Inl e \<Rightarrow> Inl e
                | Inr ts \<Rightarrow> Inr (Token (dkind single) None # ts)))
      else Inr [])"
  by pat_completeness auto
termination
  by (relation "measure (\<lambda>(buffer, i). length buffer - i)") auto

declare tokenize_from.simps [simp del]

definition tokenize :: "string \<Rightarrow> error + Token list" where
  "tokenize buffer = tokenize_from buffer 0"

text \<open>
  The positions the loop of \<open>_tokenize\<close> comes to: it starts at \<open>0\<close>, steps
  over a space, and moves past a symbol or a pattern match.
\<close>

inductive reaches :: "string \<Rightarrow> nat \<Rightarrow> bool" for buffer :: string where
  start: "reaches buffer 0"
| space:
    "reaches buffer i \<Longrightarrow> i < length buffer \<Longrightarrow> buffer ! i = CHR '' '' \<Longrightarrow>
     reaches buffer (i + 1)"
| symbolic:
    "reaches buffer i \<Longrightarrow> i < length buffer \<Longrightarrow> buffer ! i \<noteq> CHR '' '' \<Longrightarrow>
     findToken (startCharacterTokens (buffer ! i)) buffer i = Some single \<Longrightarrow>
     reaches buffer (i + (length (case symbol single of None \<Rightarrow> [] | Some s \<Rightarrow> s) - 1) + 1)"
| pattern:
    "reaches buffer i \<Longrightarrow> i < length buffer \<Longrightarrow> buffer ! i \<noteq> CHR '' '' \<Longrightarrow>
     findToken (startCharacterTokens (buffer ! i)) buffer i = None \<Longrightarrow>
     matchPattern patternTokens buffer i = Some (k, m) \<Longrightarrow>
     reaches buffer (i + (length m - 1) + 1)"

code_pred reaches .

section \<open>The compiler\<close>

text \<open>
  \<open>_Token.toOpcode\<close>, through \<open>_KindDefinition.toOpcode\<close>: the number kind
  overrides the conversion with \<open>+token.value\<close> (and \<open>+null\<close> is \<open>0\<close>); every
  other kind copies the token's value.
\<close>

definition toOpcode :: "'n arith \<Rightarrow> Token \<Rightarrow> 'n Opcode" where
  "toOpcode A token =
     (if tkind token = numberLiteral
      then Opcode (tkind token)
             (VNum (case tvalue token of None \<Rightarrow> js_zero A | Some s \<Rightarrow> js_parse A s))
      else Opcode (tkind token) (case tvalue token of None \<Rightarrow> VNull | Some s \<Rightarrow> VStr s))"

text \<open>
  \<open>_PrecedenceGroup\<close>: the kinds of one level and the parent, the next tighter
  level.  \<open>expressionGroup\<close> is the constant \<open>_expression\<close>.
\<close>

datatype PrecedenceGroup =
  PrecedenceGroup (kinds: "Kind list") (parent: "PrecedenceGroup option")

definition over :: "PrecedenceGroup \<Rightarrow> Kind list \<Rightarrow> PrecedenceGroup" where
  "over g ks = PrecedenceGroup ks (Some g)"

definition expressionGroup :: PrecedenceGroup where
  "expressionGroup =
     over (over (over (PrecedenceGroup [opPower] None) [opMultiply, opDivide])
                [opAdd, opSubtract])
          [opAssign]"

text \<open>The number of ancestors of a group; the recursion of the parser descends along it.\<close>

fun depth :: "PrecedenceGroup \<Rightarrow> nat" where
  "depth (PrecedenceGroup ks None) = 0"
| "depth (PrecedenceGroup ks (Some p)) = Suc (depth p)"

text \<open>The kinds of a group and of all its ancestors.\<close>

fun allKinds :: "PrecedenceGroup \<Rightarrow> Kind list" where
  "allKinds (PrecedenceGroup ks None) = ks"
| "allKinds (PrecedenceGroup ks (Some p)) = ks @ allKinds p"

text \<open>
  The parser functions take the opcode array and the token array and return
  both with the new cursor: \<open>ops.push\<close> appends to the first, and
  \<open>current.value = ...\<close> in \<open>_valueExpression\<close> writes the token at \<open>cursor\<close>.
  Reading \<open>tokens[k]\<close> beyond the end gives \<open>undefined\<close>, and the property read
  that follows raises \<open>TypeError\<close>.  \<open>lastTokenOp\<close> is passed as the token
  itself: it sits before the cursor, where no later step writes.
\<close>

type_synonym 'n parsed = "error + ('n Opcode list \<times> Token list \<times> nat)"

function
  valueExpression :: "'n arith \<Rightarrow> 'n Opcode list \<Rightarrow> Token list \<Rightarrow> nat \<Rightarrow> 'n parsed"
and
  halfExpression ::
    "'n arith \<Rightarrow> PrecedenceGroup \<Rightarrow> 'n Opcode list \<Rightarrow> Token list \<Rightarrow> nat \<Rightarrow> 'n parsed"
and
  expression ::
    "'n arith \<Rightarrow> PrecedenceGroup \<Rightarrow> 'n Opcode list \<Rightarrow> Token list \<Rightarrow> nat \<Rightarrow> Token option
      \<Rightarrow> 'n parsed"
where
  "valueExpression A ops tokens cursor =
     (if length tokens \<le> cursor then Inl TypeError
      else
        let current = tokens ! cursor in
        if tkind current = openBracket then
          (case expression A expressionGroup ops tokens (cursor + 1) None of
             Inl e \<Rightarrow> Inl e
           | Inr (ops', tokens', currentCursor) \<Rightarrow>
               if length tokens' \<le> currentCursor then Inl TypeError
               else if tkind (tokens' ! currentCursor) \<noteq> closeBracket
               then Inl (CalculationParseException ''Ouch, no closing bracket'' None None)
               else Inr (ops', tokens', currentCursor + 1))
        else if tkind current = identifierKind then
          Inr (ops @ [toOpcode A current], tokens, cursor + 1)
        else
          let currentCursor = (if tkind current = opSubtract then cursor + 1 else cursor) in
          if length tokens \<le> currentCursor then Inl TypeError
          else
            let current' =
                  Token (tkind current)
                    (Some ((if tkind current = opSubtract then ''-'' else []) @
                           (case tvalue (tokens ! currentCursor) of
                              None \<Rightarrow> ''null'' | Some s \<Rightarrow> s)))
            in Inr (ops @ [toOpcode A current'], tokens[cursor := current'], currentCursor + 1))"
| "halfExpression A g ops tokens cursor =
     (if length tokens \<le> cursor then Inl TypeError
      else if tkind (tokens ! cursor) \<in> set (kinds g)
      then expression A g ops tokens (cursor + 1) (Some (tokens ! cursor))
      else Inr (ops, tokens, cursor))"
| "expression A g ops tokens cursor lastTokenOp =
     (case (case parent g of
              Some p \<Rightarrow> expression A p ops tokens cursor None
            | None \<Rightarrow> valueExpression A ops tokens cursor) of
        Inl e \<Rightarrow> Inl e
      | Inr (ops', tokens', afterTerm) \<Rightarrow>
          let ops'' = (case lastTokenOp of None \<Rightarrow> ops' | Some t \<Rightarrow> ops' @ [toOpcode A t]) in
          if afterTerm < length tokens' then halfExpression A g ops'' tokens' afterTerm
          else Inr (ops'', tokens', afterTerm))"
  by pat_completeness auto

text \<open>
  Termination: every call that comes back has moved the cursor forward and has
  kept the number of tokens, so the recursion on the cursor a call returned
  is a recursion on fewer remaining tokens.
\<close>

lemma parser_progress_partial:
  "valueExpression_halfExpression_expression_dom (Inl (A, ops, tokens, cursor)) \<Longrightarrow>
     valueExpression A ops tokens cursor = Inr (ops1, tokens1, c1) \<Longrightarrow>
     cursor < c1 \<and> length tokens1 = length tokens"
  "valueExpression_halfExpression_expression_dom (Inr (Inl (A, g, ops, tokens, cursor))) \<Longrightarrow>
     halfExpression A g ops tokens cursor = Inr (ops2, tokens2, c2) \<Longrightarrow>
     cursor \<le> c2 \<and> length tokens2 = length tokens"
  "valueExpression_halfExpression_expression_dom (Inr (Inr (A, g, ops, tokens, cursor, l))) \<Longrightarrow>
     expression A g ops tokens cursor l = Inr (ops3, tokens3, c3) \<Longrightarrow>
     cursor < c3 \<and> length tokens3 = length tokens"
proof (induct arbitrary: ops1 tokens1 c1 and ops2 tokens2 c2 and ops3 tokens3 c3
       rule: valueExpression_halfExpression_expression.pinduct)
  case (1 A ops tokens cursor)
  show ?case
  proof (cases "\<not> length tokens \<le> cursor \<and> tkind (tokens ! cursor) = openBracket")
    case True
    with 1(1,3) obtain o' t' c' where
      e: "expression A expressionGroup ops tokens (cursor + 1) None = Inr (o', t', c')"
      and r: "tokens1 = t'" "c1 = c' + 1"
      by (auto simp: valueExpression.psimps Let_def split: if_splits sum.splits prod.splits)
    from 1(2)[OF _ refl _ e] True have "cursor + 1 < c' \<and> length t' = length tokens" by simp
    with r show ?thesis by simp
  next
    case False
    with 1(1,3) show ?thesis
      by (auto simp: valueExpression.psimps Let_def split: if_splits sum.splits prod.splits)
  qed
next
  case (2 A g ops tokens cursor)
  then show ?case
    by (fastforce simp: halfExpression.psimps split: if_splits)
next
  case (3 A g ops tokens cursor lastTokenOp)
  then show ?case
    by (fastforce simp: expression.psimps Let_def
          split: if_splits sum.splits prod.splits option.splits)
qed

termination valueExpression
proof (relation "measures [
     (\<lambda>x. case x of
             Inl (A, ops, tokens, cursor) \<Rightarrow> Suc (length tokens) - cursor
           | Inr (Inl (A, g, ops, tokens, cursor)) \<Rightarrow> Suc (length tokens) - cursor
           | Inr (Inr (A, g, ops, tokens, cursor, l)) \<Rightarrow> Suc (length tokens) - cursor),
     (\<lambda>x. case x of
             Inl _ \<Rightarrow> 0
           | Inr (Inl _) \<Rightarrow> 0
           | Inr (Inr (A, g, ops, tokens, cursor, l)) \<Rightarrow> Suc (depth g))]", goal_cases)
  case 1
  show ?case by simp
next
  case 2
  then show ?case by simp
next
  case 3
  then show ?case by simp
next
  case 4
  then show ?case by simp
next
  case (5 A g ops tokens cursor lastTokenOp p)
  then show ?case by (cases g) simp
next
  case (6 A g ops tokens cursor lastTokenOp b x y xa ya xb)
  then show ?case
    by (cases "parent g") (auto dest: parser_progress_partial)
qed

declare valueExpression.simps [simp del] halfExpression.simps [simp del]
  expression.simps [simp del]

definition parseTokens :: "'n arith \<Rightarrow> 'n Opcode list \<Rightarrow> Token list \<Rightarrow> nat \<Rightarrow> 'n parsed" where
  "parseTokens A ops tokens cursor = expression A expressionGroup ops tokens cursor None"

text \<open>
  A \<open>Program\<close> is its opcode array \<open>_ops\<close>.  \<open>newProgram source\<close> is the
  constructor on a string: tokenize all, then parse from cursor \<open>0\<close>; the cursor
  that \<open>_parseTokens\<close> returns is dropped.
\<close>

type_synonym 'n Program = "'n Opcode list"

definition newProgram :: "'n arith \<Rightarrow> string \<Rightarrow> error + 'n Program" where
  "newProgram A source =
     (case tokenize source of
        Inl e \<Rightarrow> Inl e
      | Inr tokens \<Rightarrow>
          (case parseTokens A [] tokens 0 of
             Inl e \<Rightarrow> Inl e
           | Inr (ops, tokens', cursor) \<Rightarrow> Inr ops))"

definition numOpcodes :: "'n Program \<Rightarrow> nat" where
  "numOpcodes p = length p"

section \<open>Stack elements and contexts\<close>

text \<open>
  A context is an object with identity: a \<open>_VariableReference\<close> holds a
  reference to one.  Contexts therefore live in a store, addressed by numbers,
  and each operation of a context takes the address of its receiver and the
  store, and returns the store it leaves.

  \<open>DefaultCalculationContext\<close> has the stack (top at the end, as the array)
  and the register \<open>Map\<close>, here the list of its entries in insertion order.
  \<open>OptimizationContext\<close> has the stack, \<open>_popped\<close> and \<open>_registerAccess\<close>.
\<close>

datatype 'n StackElement = Literal 'n | VariableReference string nat

datatype 'n Context =
    DefaultCalculationContext "'n StackElement list" "(string \<times> 'n) list"
  | OptimizationContext "'n StackElement list" "'n StackElement list" bool

type_synonym 'n store = "nat \<Rightarrow> 'n Context"

definition newCalculationContext :: "'n Context" where
  "newCalculationContext = DefaultCalculationContext [] []"

fun stack :: "'n Context \<Rightarrow> 'n StackElement list" where
  "stack (DefaultCalculationContext s r) = s"
| "stack (OptimizationContext s p f) = s"

text \<open>\<open>getRegister\<close>: \<open>None\<close> is \<open>undefined\<close>.\<close>

definition getRegister :: "'n arith \<Rightarrow> nat \<Rightarrow> string \<Rightarrow> 'n store \<Rightarrow> 'n option \<times> 'n store" where
  "getRegister A c name h =
     (case h c of
        DefaultCalculationContext s r \<Rightarrow> (map_of r name, h)
      | OptimizationContext s p f \<Rightarrow> (Some (js_one A), h(c := OptimizationContext s p True)))"

definition setRegister :: "nat \<Rightarrow> string \<Rightarrow> 'n \<Rightarrow> 'n store \<Rightarrow> 'n store" where
  "setRegister c name v h =
     (case h c of
        DefaultCalculationContext s r \<Rightarrow>
          h(c := DefaultCalculationContext s (AList.update name v r))
      | OptimizationContext s p f \<Rightarrow> h(c := OptimizationContext s p True))"

text \<open>
  \<open>bind\<close>: a literal returns itself; a variable reference returns a new
  reference with its own name and its own context, whatever the argument.
\<close>

fun bind :: "'n StackElement \<Rightarrow> nat \<Rightarrow> 'n StackElement" where
  "bind (Literal v) c = Literal v"
| "bind (VariableReference name ctx) c = VariableReference name ctx"

text \<open>\<open>popStack\<close>: \<open>None\<close> is the \<open>null\<close> returned on an empty stack.\<close>

definition popStack :: "nat \<Rightarrow> 'n store \<Rightarrow> 'n StackElement option \<times> 'n store" where
  "popStack c h =
     (case h c of
        DefaultCalculationContext s r \<Rightarrow>
          (if s = [] then (None, h)
           else (Some (last s), h(c := DefaultCalculationContext (butlast s) r)))
      | OptimizationContext s p f \<Rightarrow>
          (if s = [] then (None, h)
           else (Some (last s), h(c := OptimizationContext (butlast s) (p @ [last s]) f))))"

definition pushStack :: "nat \<Rightarrow> 'n StackElement \<Rightarrow> 'n store \<Rightarrow> 'n store" where
  "pushStack c newElement h =
     (case h c of
        DefaultCalculationContext s r \<Rightarrow>
          h(c := DefaultCalculationContext (s @ [bind newElement c]) r)
      | OptimizationContext s p f \<Rightarrow>
          (let elementToPush = (if f then VariableReference ''**unknown**'' c else newElement)
           in h(c := OptimizationContext (s @ [bind elementToPush c]) [] False)))"

text \<open>
  The \<open>value\<close> getter and setter of a stack element.  A reference reads
  \<open>context.getRegister(name) ?? 0\<close> and writes \<open>context.setRegister(name, val)\<close>
  on the context it holds; writing a literal throws.
\<close>

fun getValue :: "'n arith \<Rightarrow> 'n StackElement \<Rightarrow> 'n store \<Rightarrow> 'n \<times> 'n store" where
  "getValue A (Literal v) h = (v, h)"
| "getValue A (VariableReference name ctx) h =
     (case getRegister A ctx name h of
        (None, h') \<Rightarrow> (js_zero A, h')
      | (Some v, h') \<Rightarrow> (v, h'))"

fun setValue :: "'n StackElement \<Rightarrow> 'n \<Rightarrow> 'n store \<Rightarrow> (error + unit) \<times> 'n store" where
  "setValue (Literal v) val h =
     (Inl (CalculationException ''You can't set a value to a literal''), h)"
| "setValue (VariableReference name ctx) val h = (Inr (), setRegister ctx name val h)"

section \<open>The rules of the opcodes\<close>

text \<open>
  A rule runs on the store and leaves a store also when it throws: what it
  popped or wrote before the exception stays so.
\<close>

type_synonym ('n, 'a) action = "'n store \<Rightarrow> (error + 'a) \<times> 'n store"

definition andThen :: "('n, 'a) action \<Rightarrow> ('a \<Rightarrow> ('n, 'b) action) \<Rightarrow> ('n, 'b) action" where
  "andThen m f h = (case m h of (Inl e, h') \<Rightarrow> (Inl e, h') | (Inr x, h') \<Rightarrow> f x h')"

text \<open>\<open>n.popStack().value\<close>: reading \<open>value\<close> of \<open>null\<close> raises \<open>TypeError\<close>.\<close>

definition popValue :: "'n arith \<Rightarrow> nat \<Rightarrow> ('n, 'n) action" where
  "popValue A n h =
     (case popStack n h of
        (None, h') \<Rightarrow> (Inl TypeError, h')
      | (Some e, h') \<Rightarrow> (case getValue A e h' of (v, h'') \<Rightarrow> (Inr v, h'')))"

definition pushLiteral :: "nat \<Rightarrow> 'n \<Rightarrow> ('n, unit) action" where
  "pushLiteral n v h = (Inr (), pushStack n (Literal v) h)"

text \<open>
  \<open>_Opcode.perform\<close>, with the rule of each kind from \<open>_tokenDefinitions\<close>.
  The two bracket kinds have no rule, and calling \<open>undefined\<close> raises
  \<open>TypeError\<close>.  The source declares the value of a \<open>_Literal\<close> a number and
  the name of a \<open>_VariableReference\<close> a string; a number opcode without a
  number and an identifier opcode without a string are outside these types
  (neither the compiler nor the optimizer builds one); there the model stops
  with \<open>IllTyped\<close>.
\<close>

definition perform :: "'n arith \<Rightarrow> 'n Opcode \<Rightarrow> nat \<Rightarrow> ('n, unit) action" where
  "perform A op n =
     (case okind op of
        opAdd \<Rightarrow>
          andThen (popValue A n) (\<lambda>a. andThen (popValue A n) (\<lambda>b.
            pushLiteral n (js_add A a b)))
      | opSubtract \<Rightarrow>
          andThen (popValue A n) (\<lambda>a. andThen (popValue A n) (\<lambda>b.
            pushLiteral n (js_add A (js_neg A a) b)))
      | opMultiply \<Rightarrow>
          andThen (popValue A n) (\<lambda>a. andThen (popValue A n) (\<lambda>b.
            pushLiteral n (js_mul A a b)))
      | opDivide \<Rightarrow>
          andThen (popValue A n) (\<lambda>a. andThen (popValue A n) (\<lambda>b.
            pushLiteral n (js_div A b a)))
      | opPower \<Rightarrow>
          andThen (popValue A n) (\<lambda>right. andThen (popValue A n) (\<lambda>left.
            pushLiteral n (js_pow A left right)))
      | numberLiteral \<Rightarrow>
          (case ovalue op of
             VNum x \<Rightarrow> pushLiteral n x
           | _ \<Rightarrow> (\<lambda>h. (Inl IllTyped, h)))
      | identifierKind \<Rightarrow>
          (case ovalue op of
             VStr name \<Rightarrow> (\<lambda>h. (Inr (), pushStack n (VariableReference name n) h))
           | _ \<Rightarrow> (\<lambda>h. (Inl IllTyped, h)))
      | opAssign \<Rightarrow>
          andThen (popValue A n) (\<lambda>val. andThen (\<lambda>h. case popStack n h of (t, h') \<Rightarrow> (Inr t, h'))
            (\<lambda>target.
               andThen (case target of
                          None \<Rightarrow> (\<lambda>h. (Inl TypeError, h))
                        | Some t \<Rightarrow> setValue t val)
                 (\<lambda>_. pushLiteral n val)))
      | openBracket \<Rightarrow> (\<lambda>h. (Inl TypeError, h))
      | closeBracket \<Rightarrow> (\<lambda>h. (Inl TypeError, h)))"

section \<open>Programs: execute and optimize\<close>

fun performAll :: "'n arith \<Rightarrow> 'n Opcode list \<Rightarrow> nat \<Rightarrow> ('n, unit) action" where
  "performAll A [] n h = (Inr (), h)"
| "performAll A (op # ops) n h =
     (case perform A op n h of
        (Inl e, h') \<Rightarrow> (Inl e, h')
      | (Inr u, h') \<Rightarrow> performAll A ops n h')"

text \<open>
  \<open>execute(context)\<close> on the context at address \<open>n\<close>: every opcode in turn,
  then \<open>realContext.popStack().value\<close>.
\<close>

definition execute :: "'n arith \<Rightarrow> 'n Program \<Rightarrow> nat \<Rightarrow> ('n, 'n) action" where
  "execute A p n = andThen (performAll A p n) (\<lambda>_. popValue A n)"

text \<open>
  \<open>execute()\<close> without a context runs on \<open>newCalculationContext()\<close>; nothing
  else refers to that context, so only the outcome is returned.
\<close>

definition executeNew :: "'n arith \<Rightarrow> 'n Program \<Rightarrow> error + 'n" where
  "executeNew A p = fst (execute A p 0 (\<lambda>_. newCalculationContext))"

text \<open>The getters of \<open>_OptimizationContext\<close> that \<open>optimize\<close> reads.\<close>

definition stackDepth :: "'n store \<Rightarrow> nat \<Rightarrow> nat" where
  "stackDepth h c = length (stack (h c))"

definition stackIsNotEmpty :: "'n store \<Rightarrow> nat \<Rightarrow> bool" where
  "stackIsNotEmpty h c = (length (stack (h c)) \<noteq> 0)"

text \<open>\<open>_top\<close> is \<open>undefined\<close> on an empty stack, and not an instance of \<open>_Literal\<close>.\<close>

definition topIsLiteral :: "'n store \<Rightarrow> nat \<Rightarrow> bool" where
  "topIsLiteral h c =
     (case stack (h c) of
        [] \<Rightarrow> False
      | s \<Rightarrow> (case last s of Literal v \<Rightarrow> True | VariableReference name ctx \<Rightarrow> False))"

definition topValue :: "'n arith \<Rightarrow> nat \<Rightarrow> ('n, 'n) action" where
  "topValue A c h =
     (case stack (h c) of
        [] \<Rightarrow> (Inl TypeError, h)
      | s \<Rightarrow> (case getValue A (last s) h of (v, h') \<Rightarrow> (Inr v, h')))"

definition stackSince :: "'n store \<Rightarrow> nat \<Rightarrow> nat \<Rightarrow> 'n StackElement list" where
  "stackSince h c start = drop start (stack (h c))"

text \<open>\<open>toOpcode\<close> of a stack element.\<close>

fun elementToOpcode :: "'n StackElement \<Rightarrow> 'n Opcode" where
  "elementToOpcode (Literal v) = Opcode numberLiteral (VNum v)"
| "elementToOpcode (VariableReference name ctx) = Opcode identifierKind (VStr name)"

text \<open>
  \<open>stackSave.isNotEmpty\<close>: \<open>stackSave\<close> is an \<open>Array\<close>, and an array has no
  property of this name, so the read gives \<open>undefined\<close>, which is false in a
  condition, whatever the array holds.
\<close>

definition isNotEmpty :: "'a list \<Rightarrow> bool" where
  "isNotEmpty xs = False"

text \<open>
  The loop of \<open>optimize\<close> over the opcodes, on the optimization context at
  address \<open>c\<close>: the state is the store, \<open>newOps\<close> and \<open>stackBound\<close>
  (\<open>stackSave\<close> is assigned anew in each round).  An exception of a rule leaves
  \<open>optimize\<close>.
\<close>

fun optimize_loop ::
  "'n arith \<Rightarrow> 'n Opcode list \<Rightarrow> nat \<Rightarrow> 'n store \<Rightarrow> 'n Opcode list \<Rightarrow> nat
     \<Rightarrow> error + ('n store \<times> 'n Opcode list \<times> nat)"
where
  "optimize_loop A [] c h newOps stackBound = Inr (h, newOps, stackBound)"
| "optimize_loop A (op # ops) c h newOps stackBound =
     (let stackSave =
            (if stackIsNotEmpty h c \<and> topIsLiteral h c
             then Some (stackSince h c stackBound) else None)
      in case perform A op c h of
           (Inl e, h') \<Rightarrow> Inl e
         | (Inr u, h') \<Rightarrow>
             if \<not> topIsLiteral h' c then
               optimize_loop A ops c h'
                 ((case stackSave of
                     None \<Rightarrow> newOps
                   | Some saved \<Rightarrow>
                       if isNotEmpty saved then newOps @ map elementToOpcode saved
                       else newOps) @ [op])
                 (stackDepth h' c)
             else optimize_loop A ops c h' newOps stackBound)"

text \<open>
  \<open>optimize\<close>: the new \<open>_OptimizationContext\<close> is at address \<open>0\<close> of a store
  of its own (no other context is reachable from it).  The result is the
  one-opcode program of the literal on top, or \<open>newOps\<close> when shorter, or the
  program itself.
\<close>

definition optimize :: "'n arith \<Rightarrow> 'n Program \<Rightarrow> error + 'n Program" where
  "optimize A p =
     (let h0 = (\<lambda>_. newCalculationContext)(0 := OptimizationContext [] [] False)
      in case optimize_loop A p 0 h0 [] 0 of
           Inl e \<Rightarrow> Inl e
         | Inr (h, newOps, stackBound) \<Rightarrow>
             if topIsLiteral h 0 then
               (case topValue A 0 h of
                  (Inl e, h') \<Rightarrow> Inl e
                | (Inr v, h') \<Rightarrow> Inr [Opcode numberLiteral (VNum v)])
             else if length newOps < length p then Inr newOps
             else Inr p)"

section \<open>An arithmetic to read results off\<close>

text \<open>
  The theorems below hold for every arithmetic.  To read a concrete number off
  a result they also use \<open>exactArith\<close>, the arithmetic of the rationals.  It
  agrees with the doubles of the source wherever operands and results are
  integers of magnitude below \<open>2^53\<close> and nothing is divided by zero, which is
  where it is used; it has no rounding, no infinities and no NaN.
  \<open>decimal\<close> reads the text of a number token.
\<close>

definition digitValue :: "char \<Rightarrow> nat" where
  "digitValue c = length (takeWhile (\<lambda>d. d \<noteq> c) ''0123456789'')"

definition digitsValue :: "string \<Rightarrow> nat" where
  "digitsValue s = foldl (\<lambda>n c. 10 * n + digitValue c) 0 s"

definition decimal :: "string \<Rightarrow> rat" where
  "decimal s =
     (let ip = takeWhile isDigit s;
          r1 = drop (length ip) s;
          fp = (if r1 \<noteq> [] \<and> hd r1 = CHR ''.'' then takeWhile isDigit (tl r1) else []);
          r2 = (if r1 \<noteq> [] \<and> hd r1 = CHR ''.'' then drop (length fp) (tl r1) else r1);
          r3 = (if r2 \<noteq> [] then tl r2 else []);
          neg = (r3 \<noteq> [] \<and> hd r3 = CHR ''-'');
          ep = takeWhile isDigit (if r3 \<noteq> [] \<and> (hd r3 = CHR ''-'' \<or> hd r3 = CHR ''+'')
                                  then tl r3 else r3);
          m = of_nat (digitsValue ip) + of_nat (digitsValue fp) / 10 ^ length fp
      in if neg then m / 10 ^ digitsValue ep else m * 10 ^ digitsValue ep)"

definition exactPow :: "rat \<Rightarrow> rat \<Rightarrow> rat" where
  "exactPow a b =
     (if b = of_int \<lfloor>b\<rfloor> then
        (if 0 \<le> b then a ^ nat \<lfloor>b\<rfloor> else 1 / a ^ nat \<lfloor>- b\<rfloor>)
      else 0)"

definition exactArith :: "rat arith" where
  "exactArith =
     \<lparr> js_add = (+), js_neg = uminus, js_mul = (*), js_div = (/), js_pow = exactPow,
       js_parse = decimal, js_zero = 0, js_one = 1 \<rparr>"

section \<open>Notions used in the statements and proofs\<close>

text \<open>
  A program whose opcodes never touch a register, in the words of the
  specification: it has no identifier opcode and no assign opcode.  Registers
  are read and written only through variable references, which only the
  identifier rule creates, and by the assign rule.
\<close>

definition touchesNoRegister :: "'n Program \<Rightarrow> bool" where
  "touchesNoRegister p =
     list_all (\<lambda>op. okind op \<noteq> identifierKind \<and> okind op \<noteq> opAssign) p"

fun isLiteral :: "'n StackElement \<Rightarrow> bool" where
  "isLiteral (Literal v) = True"
| "isLiteral (VariableReference name ctx) = False"


text \<open>The common shape of the five arithmetic rules: pop, pop, push the result.\<close>

definition binary :: "'n arith \<Rightarrow> nat \<Rightarrow> ('n \<Rightarrow> 'n \<Rightarrow> 'n) \<Rightarrow> ('n, unit) action" where
  "binary A n f =
     andThen (popValue A n) (\<lambda>a. andThen (popValue A n) (\<lambda>b. pushLiteral n (f a b)))"

section \<open>Evaluation rules\<close>

lemmas parser_simps =
  parseTokens_def expressionGroup_def over_def expression.simps
  valueExpression.simps halfExpression.simps toOpcode_def Let_def

lemmas exec_simps =
  execute_def executeNew_def perform_def andThen_def popValue_def popStack_def
  pushStack_def pushLiteral_def newCalculationContext_def getRegister_def setRegister_def
  butlast_append last_append

lemmas opt_simps =
  optimize_def topIsLiteral_def topValue_def stackIsNotEmpty_def stackSince_def
  stackDepth_def isNotEmpty_def

lemma tokenize_a_plus_1:
  "tokenize ''a+1'' =
     Inr [Token identifierKind (Some ''a''), Token opAdd None, Token numberLiteral (Some ''1'')]"
  by code_simp

lemma tokenize_a_is_5:
  "tokenize ''a=5'' =
     Inr [Token identifierKind (Some ''a''), Token opAssign None, Token numberLiteral (Some ''5'')]"
  by code_simp

lemma tokenize_minus_3_pow_2:
  "tokenize ''-3**2'' =
     Inr [Token opSubtract None, Token numberLiteral (Some ''3''), Token opPower None,
          Token numberLiteral (Some ''2'')]"
  by code_simp

lemma tokenize_2_pow_3_pow_2:
  "tokenize ''2**3**2'' =
     Inr [Token numberLiteral (Some ''2''), Token opPower None, Token numberLiteral (Some ''3''),
          Token opPower None, Token numberLiteral (Some ''2'')]"
  by code_simp

lemma tokenize_open_1_plus_2:
  "tokenize ''(1+2'' =
     Inr [Token openBracket None, Token numberLiteral (Some ''1''), Token opAdd None,
          Token numberLiteral (Some ''2'')]"
  by code_simp

lemma tokenize_open_1_2:
  "tokenize ''(1 2'' =
     Inr [Token openBracket None, Token numberLiteral (Some ''1''),
          Token numberLiteral (Some ''2'')]"
  by code_simp

lemma tokenize_2_plus_3:
  "tokenize ''2+3'' =
     Inr [Token numberLiteral (Some ''2''), Token opAdd None, Token numberLiteral (Some ''3'')]"
  by code_simp

lemma tokenize_plus: "tokenize ''+'' = Inr [Token opAdd None]"
  by code_simp

lemma newProgram_a_plus_1:
  "newProgram A ''a+1'' =
     Inr [Opcode identifierKind (VStr ''a''), Opcode numberLiteral (VNum (js_parse A ''1'')),
          Opcode opAdd VNull]"
  by (simp add: newProgram_def tokenize_a_plus_1 parser_simps)

lemma optimize_a_plus_1:
  "optimize A [Opcode identifierKind (VStr ''a''), Opcode numberLiteral (VNum x),
               Opcode opAdd VNull] =
     Inr [Opcode identifierKind (VStr ''a''), Opcode opAdd VNull]"
  by (simp add: opt_simps exec_simps)

lemma execute_a_plus_1:
  "fst (execute A [Opcode identifierKind (VStr ''a''), Opcode numberLiteral (VNum x),
                   Opcode opAdd VNull]
          c (h(c := DefaultCalculationContext [] r))) =
     Inr (js_add A x (case map_of r ''a'' of None \<Rightarrow> js_zero A | Some v \<Rightarrow> v))"
  by (simp add: exec_simps split: option.split)

lemma decimal_small:
  "decimal ''1'' = 1" "decimal ''2'' = 2" "decimal ''3'' = 3" "decimal ''5'' = 5"
  by code_simp+

lemma executeNew_alt:
  "executeNew A p =
     fst (execute A p 0 ((\<lambda>_. newCalculationContext)(0 := DefaultCalculationContext [] [])))"
proof -
  have eq: "(\<lambda>_. newCalculationContext)(0 := DefaultCalculationContext [] []) =
        (\<lambda>_. newCalculationContext)"
    by (rule ext) (simp add: newCalculationContext_def)
  show ?thesis
    unfolding executeNew_def eq ..
qed

section \<open>The claims\<close>

subsection \<open>Optimization and execution (C1)\<close>

text \<open>
  C1.  Claimed: for every program and every context, the optimized program
  gives the same result and the same register effects as the program itself;
  so for \<open>a+1\<close>, whatever \<open>a\<close> is.  The code does otherwise at \<open>a+1\<close>: the
  program compiles to identifier \<open>a\<close>, number \<open>1\<close>, add, and on a context with
  an empty stack it returns \<open>1 + a\<close> (with \<open>0\<close> for an unset \<open>a\<close>; \<open>11\<close> for
  \<open>a = 10\<close>).  \<open>optimize\<close> returns identifier \<open>a\<close>, add: the saved literal
  \<open>1\<close> is never written back, because the test \<open>stackSave.isNotEmpty\<close> is
  always false.  Executing that program raises \<open>TypeError\<close> at the second
  pop of the add.
\<close>

theorem optimize_a_plus_1_changes_result:
  "newProgram A ''a+1'' =
     Inr [Opcode identifierKind (VStr ''a''), Opcode numberLiteral (VNum (js_parse A ''1'')),
          Opcode opAdd VNull]
   \<and> optimize A [Opcode identifierKind (VStr ''a''),
                 Opcode numberLiteral (VNum (js_parse A ''1'')), Opcode opAdd VNull] =
       Inr [Opcode identifierKind (VStr ''a''), Opcode opAdd VNull]
   \<and> fst (execute A [Opcode identifierKind (VStr ''a''),
                      Opcode numberLiteral (VNum (js_parse A ''1'')), Opcode opAdd VNull]
              c (h(c := DefaultCalculationContext [] r))) =
       Inr (js_add A (js_parse A ''1'')
              (case map_of r ''a'' of None \<Rightarrow> js_zero A | Some v \<Rightarrow> v))
   \<and> fst (execute A [Opcode identifierKind (VStr ''a''), Opcode opAdd VNull]
              c (h(c := DefaultCalculationContext [] r))) = Inl TypeError
   \<and> fst (execute exactArith
              [Opcode identifierKind (VStr ''a''),
               Opcode numberLiteral (VNum (js_parse exactArith ''1'')), Opcode opAdd VNull]
              c' (h'(c' := DefaultCalculationContext [] [(''a'', 10)]))) = Inr 11"
proof -
  have "fst (execute A [Opcode identifierKind (VStr ''a''), Opcode opAdd VNull]
              c (h(c := DefaultCalculationContext [] r))) = Inl TypeError"
    by (simp add: exec_simps split: option.split)
  moreover have "js_parse exactArith ''1'' = 1"
    by (simp add: exactArith_def decimal_small)
  ultimately show ?thesis
    using execute_a_plus_1[of exactArith "1" c' h' "[(''a'', 10)]"]
    by (simp add: newProgram_a_plus_1 optimize_a_plus_1 execute_a_plus_1 exactArith_def)
qed

subsection \<open>A minus before a number (C2)\<close>

text \<open>
  C2.  Claimed: \<open>-3**2\<close> compiles to a program that executes without error
  and returns \<open>9\<close>, the minus folded into the literal \<open>-3\<close>.  The code folds
  the minus into the text \<open>-3\<close>, but converts the token of the minus, not
  the token of the number: the first opcode is a subtract opcode with the value
  \<open>-3\<close>.  Executed on a context with an empty stack (a new one, too) the
  subtract pops \<open>null\<close> and raises \<open>TypeError\<close>.
\<close>

theorem minus_literal_compiles_to_subtract:
  "newProgram A ''-3**2'' =
     Inr [Opcode opSubtract (VStr ''-3''), Opcode numberLiteral (VNum (js_parse A ''2'')),
          Opcode opPower VNull]
   \<and> executeNew A [Opcode opSubtract (VStr ''-3''),
                    Opcode numberLiteral (VNum (js_parse A ''2'')), Opcode opPower VNull] =
       Inl TypeError
   \<and> fst (execute A [Opcode opSubtract (VStr ''-3''),
                      Opcode numberLiteral (VNum (js_parse A ''2'')), Opcode opPower VNull]
              c (h(c := DefaultCalculationContext [] r))) = Inl TypeError"
  by (simp add: newProgram_def tokenize_minus_3_pow_2 parser_simps exec_simps)

subsection \<open>References and the context they are pushed into (C3)\<close>






















subsection \<open>Programs without registers (C4)\<close>

lemma popValue_default_literal:
  "popValue A c (h(c := DefaultCalculationContext (s @ [Literal v]) r)) =
     (Inr v, h(c := DefaultCalculationContext s r))"
  by (simp add: popValue_def popStack_def)

lemma popValue_default_empty:
  "popValue A c (h(c := DefaultCalculationContext [] r)) =
     (Inl TypeError, h(c := DefaultCalculationContext [] r))"
  by (simp add: popValue_def popStack_def)

lemma popValue_optimization_literal:
  "popValue A c (h(c := OptimizationContext (s @ [Literal v]) p f)) =
     (Inr v, h(c := OptimizationContext s (p @ [Literal v]) f))"
  by (simp add: popValue_def popStack_def)

lemma pushLiteral_default:
  "pushLiteral c v (h(c := DefaultCalculationContext s r)) =
     (Inr (), h(c := DefaultCalculationContext (s @ [Literal v]) r))"
  by (simp add: pushLiteral_def pushStack_def)

lemma pushLiteral_optimization:
  "pushLiteral c v (h(c := OptimizationContext s p False)) =
     (Inr (), h(c := OptimizationContext (s @ [Literal v]) [] False))"
  by (simp add: pushLiteral_def pushStack_def)

lemma literal_stack_cases:
  assumes "list_all isLiteral s"
  obtains "s = []" | v where "s = [Literal v]"
    | s0 a b where "s = s0 @ [Literal b, Literal a]" "list_all isLiteral s0"
proof (cases s rule: rev_cases)
  case Nil
  then show ?thesis using that(1) by simp
next
  case (snoc s1 e1)
  with assms obtain a where e1: "e1 = Literal a" and s1: "list_all isLiteral s1"
    by (cases e1) auto
  show ?thesis
  proof (cases s1 rule: rev_cases)
    case Nil
    with snoc e1 show ?thesis using that(2) by simp
  next
    case (snoc s0 e0)
    with s1 obtain b where "e0 = Literal b" and "list_all isLiteral s0"
      by (cases e0) auto
    with snoc \<open>s = s1 @ [e1]\<close> e1 show ?thesis using that(3) by simp
  qed
qed

lemma binary_literals:
  assumes lit: "list_all isLiteral s"
    and run: "binary A c f (h(c := DefaultCalculationContext s r)) = (Inr u, h1)"
  shows "\<exists>s'. h1 = h(c := DefaultCalculationContext s' r) \<and> list_all isLiteral s' \<and>
           s' \<noteq> [] \<and> isLiteral (last s') \<and>
           binary A c' f (h'(c' := OptimizationContext s p False)) =
             (Inr (), h'(c' := OptimizationContext s' [] False))"
  using lit
proof (cases s rule: literal_stack_cases)
  case 1
  with run show ?thesis
    by (simp add: binary_def andThen_def popValue_default_empty)
next
  case (2 v)
  with run show ?thesis
    using popValue_default_literal[of A c h "[]" v r]
    by (simp add: binary_def andThen_def popValue_default_empty)
next
  case (3 s0 a b)
  have d: "binary A c f (h(c := DefaultCalculationContext (s0 @ [Literal b, Literal a]) r)) =
        (Inr (), h(c := DefaultCalculationContext (s0 @ [Literal (f a b)]) r))"
    using popValue_default_literal[of A c h "s0 @ [Literal b]" a r]
      popValue_default_literal[of A c h s0 b r]
    by (simp add: binary_def andThen_def pushLiteral_default)
  have o: "binary A c' f (h'(c' := OptimizationContext (s0 @ [Literal b, Literal a]) p False)) =
        (Inr (), h'(c' := OptimizationContext (s0 @ [Literal (f a b)]) [] False))"
    using popValue_optimization_literal[of A c' h' "s0 @ [Literal b]" a p False]
      popValue_optimization_literal[of A c' h' s0 b "p @ [Literal a]" False]
    by (simp add: binary_def andThen_def pushLiteral_optimization)
  from run d o 3 show ?thesis by auto
qed

lemma perform_literals:
  assumes op: "okind op \<noteq> identifierKind" "okind op \<noteq> opAssign"
    and lit: "list_all isLiteral s"
    and run: "perform A op c (h(c := DefaultCalculationContext s r)) = (Inr u, h1)"
  shows "\<exists>s'. h1 = h(c := DefaultCalculationContext s' r) \<and> list_all isLiteral s' \<and>
           s' \<noteq> [] \<and> isLiteral (last s') \<and>
           perform A op c' (h'(c' := OptimizationContext s p False)) =
             (Inr (), h'(c' := OptimizationContext s' [] False))"
proof (cases "okind op")
  case numberLiteral
  with run obtain x where x: "ovalue op = VNum x"
    by (cases "ovalue op") (simp_all add: perform_def)
  with numberLiteral run lit show ?thesis
    by (auto simp: perform_def pushLiteral_default pushLiteral_optimization)
next
  case opAdd
  then have "perform A op = (\<lambda>n. binary A n (js_add A))"
    by (simp add: perform_def binary_def fun_eq_iff)
  with binary_literals[OF lit, of A c "js_add A" h r u h1] run show ?thesis by simp
next
  case opSubtract
  then have "perform A op = (\<lambda>n. binary A n (\<lambda>a b. js_add A (js_neg A a) b))"
    by (simp add: perform_def binary_def fun_eq_iff)
  with binary_literals[OF lit, of A c _ h r u h1] run show ?thesis by simp
next
  case opMultiply
  then have "perform A op = (\<lambda>n. binary A n (js_mul A))"
    by (simp add: perform_def binary_def fun_eq_iff)
  with binary_literals[OF lit, of A c _ h r u h1] run show ?thesis by simp
next
  case opDivide
  then have "perform A op = (\<lambda>n. binary A n (\<lambda>a b. js_div A b a))"
    by (simp add: perform_def binary_def fun_eq_iff)
  with binary_literals[OF lit, of A c _ h r u h1] run show ?thesis by simp
next
  case opPower
  then have "perform A op = (\<lambda>n. binary A n (\<lambda>right left. js_pow A left right))"
    by (simp add: perform_def binary_def fun_eq_iff)
  with binary_literals[OF lit, of A c _ h r u h1] run show ?thesis by simp
next
  case identifierKind
  with op show ?thesis by simp
next
  case opAssign
  with op show ?thesis by simp
next
  case openBracket
  with run show ?thesis by (simp add: perform_def)
next
  case closeBracket
  with run show ?thesis by (simp add: perform_def)
qed


lemma topIsLiteral_iff:
  "topIsLiteral h c = (stack (h c) \<noteq> [] \<and> isLiteral (last (stack (h c))))"
proof (cases "stack (h c)")
  case Nil
  then show ?thesis by (simp add: topIsLiteral_def)
next
  case (Cons e es)
  then show ?thesis
    by (cases "last (e # es)") (simp_all add: topIsLiteral_def)
qed

lemma topIsLiteral_literals:
  "s \<noteq> [] \<Longrightarrow> isLiteral (last s) \<Longrightarrow> topIsLiteral (h(c := OptimizationContext s p f)) c"
  by (simp add: topIsLiteral_iff)

lemma topValue_literal:
  "topValue A c (h(c := OptimizationContext (s @ [Literal v]) p f)) =
     (Inr v, h(c := OptimizationContext (s @ [Literal v]) p f))"
  by (cases s) (simp_all add: topValue_def)

lemma performAll_Cons_Inr:
  "performAll A (op # ops) n h = (Inr u, h1) \<Longrightarrow>
   \<exists>u1 h2. perform A op n h = (Inr u1, h2) \<and> performAll A ops n h2 = (Inr u, h1)"
  by (auto split: prod.splits sum.splits)

lemma execute_Inr:
  "fst (execute A p n h) = Inr v \<Longrightarrow>
   \<exists>u h1 w. performAll A p n h = (Inr u, h1) \<and> popValue A n h1 = (Inr v, w)"
proof -
  assume run: "fst (execute A p n h) = Inr v"
  obtain res h1 where all: "performAll A p n h = (res, h1)"
    by (cases "performAll A p n h")
  obtain res' w where pop: "popValue A n h1 = (res', w)"
    by (cases "popValue A n h1")
  from run all pop show ?thesis
    by (cases res) (simp_all add: execute_def andThen_def)
qed

lemma performAll_literals:
  assumes "touchesNoRegister p" and "list_all isLiteral s"
    and "performAll A p c (h(c := DefaultCalculationContext s r)) = (Inr u, h1)"
  shows "\<exists>s' pp'. h1 = h(c := DefaultCalculationContext s' r) \<and> list_all isLiteral s' \<and>
           (s' \<noteq> [] \<or> p = [] \<and> s = []) \<and>
           optimize_loop A p c' (h'(c' := OptimizationContext s pp False)) newOps sb =
             Inr (h'(c' := OptimizationContext s' pp' False), newOps, sb)"
  using assms
proof (induction p arbitrary: s pp u)
  case Nil
  then show ?case by auto
next
  case (Cons op ps)
  from Cons.prems(1) have op: "okind op \<noteq> identifierKind" "okind op \<noteq> opAssign"
    and ps: "touchesNoRegister ps"
    by (simp_all add: touchesNoRegister_def)
  from performAll_Cons_Inr[OF Cons.prems(3)] obtain u1 h2 where
    first: "perform A op c (h(c := DefaultCalculationContext s r)) = (Inr u1, h2)"
    and rest: "performAll A ps c h2 = (Inr u, h1)"
    by blast
  from perform_literals[OF op Cons.prems(2) first, of c' h' pp]
  obtain s1 where h2: "h2 = h(c := DefaultCalculationContext s1 r)"
    and s1: "list_all isLiteral s1" "s1 \<noteq> []" "isLiteral (last s1)"
    and opt: "perform A op c' (h'(c' := OptimizationContext s pp False)) =
                (Inr (), h'(c' := OptimizationContext s1 [] False))"
    by blast
  from Cons.IH[OF ps s1(1) rest[unfolded h2], of "[]"]
  obtain s' pp' where
    res: "h1 = h(c := DefaultCalculationContext s' r)" "list_all isLiteral s'"
      "s' \<noteq> [] \<or> ps = [] \<and> s1 = []"
    and loop: "optimize_loop A ps c' (h'(c' := OptimizationContext s1 [] False)) newOps sb =
                 Inr (h'(c' := OptimizationContext s' pp' False), newOps, sb)"
    by blast
  have "optimize_loop A (op # ps) c' (h'(c' := OptimizationContext s pp False)) newOps sb =
          Inr (h'(c' := OptimizationContext s' pp' False), newOps, sb)"
    using opt loop topIsLiteral_literals[OF s1(2,3), of h' c' "[]" False]
    by (simp add: Let_def)
  moreover from res(3) s1(2) have "s' \<noteq> []" by blast
  ultimately show ?case using res(1,2) by blast
qed

lemma execute_number:
  "execute A [Opcode numberLiteral (VNum v)] c (h(c := DefaultCalculationContext s r)) =
     (Inr v, h(c := DefaultCalculationContext s r))"
  by (simp add: exec_simps)

lemma constant_program_optimize:
  assumes p: "touchesNoRegister p" and run: "executeNew A p = Inr v"
  shows "optimize A p = Inr [Opcode numberLiteral (VNum v)]"
proof -
  let ?h = "\<lambda>_. newCalculationContext :: 'a Context"
  from execute_Inr[OF run[unfolded executeNew_alt]] obtain u h1 w where
    all: "performAll A p 0 (?h(0 := DefaultCalculationContext [] [])) = (Inr u, h1)"
    and pop: "popValue A 0 h1 = (Inr v, w)"
    by blast
  from performAll_literals[OF p _ all, of 0 ?h "[]" "[]" 0]
  obtain s' pp' where
    h1: "h1 = ?h(0 := DefaultCalculationContext s' [])" and lit: "list_all isLiteral s'"
    and loop: "optimize_loop A p 0 (?h(0 := OptimizationContext [] [] False)) [] 0 =
                 Inr (?h(0 := OptimizationContext s' pp' False), [], 0)"
    by auto
  from pop h1 lit obtain s0 where s': "s' = s0 @ [Literal v]"
    by (cases s' rule: rev_cases; cases "last s'")
       (auto simp: popValue_default_empty popValue_default_literal)
  show ?thesis
    unfolding optimize_def
    by (simp add: loop s' topIsLiteral_iff topValue_literal)
qed

lemma newProgram_2_plus_3:
  "newProgram A ''2+3'' =
     Inr [Opcode numberLiteral (VNum (js_parse A ''2'')),
          Opcode numberLiteral (VNum (js_parse A ''3'')), Opcode opAdd VNull]"
  by (simp add: newProgram_def tokenize_2_plus_3 parser_simps)

lemma executeNew_sum:
  "executeNew A [Opcode numberLiteral (VNum x), Opcode numberLiteral (VNum y), Opcode opAdd VNull] =
     Inr (js_add A y x)"
  by (simp add: executeNew_alt) (simp add: exec_simps)

text \<open>
  C4.  Claimed: for every program whose opcodes never touch a register,
  \<open>optimize\<close> returns a program of exactly one number opcode.  As stated this
  fails for a program that does not run through: the source \<open>+\<close> compiles to
  the single opcode add (with the value \<open>null\<close> as text), which touches no
  register, and \<open>optimize\<close> raises \<open>TypeError\<close> on it, as \<open>execute\<close> does.
\<close>

theorem malformed_program_optimize_raises:
  "newProgram exactArith ''+'' = Inr [Opcode opAdd (VStr ''null'')]
   \<and> touchesNoRegister [Opcode opAdd (VStr ''null'') :: rat Opcode]
   \<and> optimize exactArith [Opcode opAdd (VStr ''null'')] = Inl TypeError"
  by (simp add: newProgram_def tokenize_plus parser_simps touchesNoRegister_def
        opt_simps exec_simps)

text \<open>
  C4, amended.  For every program whose opcodes never touch a register and
  whose \<open>execute()\<close> on a new context returns a value \<open>v\<close>, \<open>optimize\<close>
  returns the program of the one number opcode \<open>v\<close>; its \<open>numOpcodes\<close> is
  \<open>1\<close>, and it returns \<open>v\<close> on a new context and on every other execution
  context, which it leaves as it was.  The program of \<open>2+3\<close> is folded to
  the number opcode \<open>5\<close>, which returns \<open>5\<close>.
\<close>

theorem constant_program_folds:
  "(touchesNoRegister p \<and> executeNew A p = Inr v \<longrightarrow>
      optimize A p = Inr [Opcode numberLiteral (VNum v)]
      \<and> numOpcodes [Opcode numberLiteral (VNum v)] = 1
      \<and> executeNew A [Opcode numberLiteral (VNum v)] = Inr v
      \<and> execute A [Opcode numberLiteral (VNum v)] c (h(c := DefaultCalculationContext s r)) =
          (Inr v, h(c := DefaultCalculationContext s r)))
   \<and> newProgram A ''2+3'' =
       Inr [Opcode numberLiteral (VNum (js_parse A ''2'')),
            Opcode numberLiteral (VNum (js_parse A ''3'')), Opcode opAdd VNull]
   \<and> optimize exactArith
         [Opcode numberLiteral (VNum (js_parse exactArith ''2'')),
          Opcode numberLiteral (VNum (js_parse exactArith ''3'')), Opcode opAdd VNull] =
       Inr [Opcode numberLiteral (VNum 5)]
   \<and> executeNew exactArith [Opcode numberLiteral (VNum 5)] = Inr 5"
proof -
  have n: "executeNew B [Opcode numberLiteral (VNum w)] = Inr w" for B :: "'b arith" and w
    by (simp add: executeNew_alt execute_number)
  have "touchesNoRegister
          [Opcode numberLiteral (VNum (js_parse exactArith ''2'')),
           Opcode numberLiteral (VNum (js_parse exactArith ''3'')), Opcode opAdd VNull]"
    by (simp add: touchesNoRegister_def)
  moreover have "executeNew exactArith
          [Opcode numberLiteral (VNum (js_parse exactArith ''2'')),
           Opcode numberLiteral (VNum (js_parse exactArith ''3'')), Opcode opAdd VNull] = Inr 5"
    by (simp add: executeNew_sum) (simp add: exactArith_def decimal_small)
  ultimately have "optimize exactArith
         [Opcode numberLiteral (VNum (js_parse exactArith ''2'')),
          Opcode numberLiteral (VNum (js_parse exactArith ''3'')), Opcode opAdd VNull] =
       Inr [Opcode numberLiteral (VNum 5)]"
    by (rule constant_program_optimize)
  then show ?thesis
    by (simp add: constant_program_optimize n execute_number numOpcodes_def newProgram_2_plus_3)
qed

theorem constant_program_folds_witness:
  "touchesNoRegister
     [Opcode numberLiteral (VNum (2::rat)), Opcode numberLiteral (VNum 3), Opcode opAdd VNull]
   \<and> executeNew exactArith
       [Opcode numberLiteral (VNum 2), Opcode numberLiteral (VNum 3), Opcode opAdd VNull] = Inr 5
   \<and> optimize exactArith
       [Opcode numberLiteral (VNum 2), Opcode numberLiteral (VNum 3), Opcode opAdd VNull] =
       Inr [Opcode numberLiteral (VNum 5)]
   \<and> numOpcodes [Opcode numberLiteral (VNum (5::rat))] = 1
   \<and> executeNew exactArith [Opcode numberLiteral (VNum 5)] = Inr 5"
proof -
  have t: "touchesNoRegister
     [Opcode numberLiteral (VNum (2::rat)), Opcode numberLiteral (VNum 3), Opcode opAdd VNull]"
    by (simp add: touchesNoRegister_def)
  have e: "executeNew exactArith
       [Opcode numberLiteral (VNum 2), Opcode numberLiteral (VNum 3), Opcode opAdd VNull] = Inr 5"
    by (simp add: executeNew_sum) (simp add: exactArith_def)
  show ?thesis
    using constant_program_folds[of
        "[Opcode numberLiteral (VNum 2), Opcode numberLiteral (VNum 3), Opcode opAdd VNull]"
        exactArith 5] t e
    by simp
qed

subsection \<open>Optimizing twice (C5)\<close>

text \<open>
  C5.  Claimed: for every program \<open>p\<close>, \<open>p.optimize().optimize()\<close> completes
  without error.  For \<open>a+1\<close> the first \<open>optimize\<close> returns identifier \<open>a\<close>,
  add (see C1), and \<open>optimize\<close> of that program raises \<open>TypeError\<close>: the add
  finds one element on the stack.
\<close>

theorem optimize_twice_a_plus_1_raises:
  "newProgram A ''a+1'' =
     Inr [Opcode identifierKind (VStr ''a''), Opcode numberLiteral (VNum (js_parse A ''1'')),
          Opcode opAdd VNull]
   \<and> optimize A [Opcode identifierKind (VStr ''a''),
                 Opcode numberLiteral (VNum (js_parse A ''1'')), Opcode opAdd VNull] =
       Inr [Opcode identifierKind (VStr ''a''), Opcode opAdd VNull]
   \<and> optimize A [Opcode identifierKind (VStr ''a''), Opcode opAdd VNull] = Inl TypeError"
proof -
  have "optimize A [Opcode identifierKind (VStr ''a''), Opcode opAdd VNull] = Inl TypeError"
    by (simp add: opt_simps exec_simps)
  then show ?thesis
    by (simp add: newProgram_a_plus_1 optimize_a_plus_1)
qed

subsection \<open>Chains of powers (C6)\<close>

lemma newProgram_2_pow_3_pow_2:
  "newProgram A ''2**3**2'' =
     Inr [Opcode numberLiteral (VNum (js_parse A ''2'')),
          Opcode numberLiteral (VNum (js_parse A ''3'')), Opcode opPower VNull,
          Opcode numberLiteral (VNum (js_parse A ''2'')), Opcode opPower VNull]"
  by (simp add: newProgram_def tokenize_2_pow_3_pow_2 parser_simps)

lemma execute_power_chain:
  "execute A [Opcode numberLiteral (VNum a), Opcode numberLiteral (VNum b), Opcode opPower v1,
              Opcode numberLiteral (VNum d), Opcode opPower v2]
     c (h(c := DefaultCalculationContext s r)) =
   (Inr (js_pow A (js_pow A a b) d), h(c := DefaultCalculationContext s r))"
  by (simp add: exec_simps)

lemma exactPow_small: "exactPow (exactPow 2 3) 2 = 64"
  by code_simp

text \<open>
  The power level on three primaries with a power token after the first and
  after the second, and the end of the tokens after the third.
\<close>

lemma power_level_chain:
  assumes a: "valueExpression A ops T c = Inr (ops @ oa, T1, c1)"
    and p1: "c1 < length T1" "T1 ! c1 = Token opPower None"
    and b: "valueExpression A (ops @ oa) T1 (c1 + 1) = Inr (ops @ oa @ ob, T2, c2)"
    and p2: "c2 < length T2" "T2 ! c2 = Token opPower None"
    and c: "valueExpression A (ops @ oa @ ob @ [Opcode opPower VNull]) T2 (c2 + 1) =
              Inr (ops @ oa @ ob @ [Opcode opPower VNull] @ oc, T3, length T3)"
  shows "expression A (PrecedenceGroup [opPower] None) ops T c None =
           Inr (ops @ oa @ ob @ [Opcode opPower VNull] @ oc @ [Opcode opPower VNull],
                T3, length T3)"
proof -
  have third:
    "expression A (PrecedenceGroup [opPower] None) (ops @ oa @ ob @ [Opcode opPower VNull])
       T2 (c2 + 1) (Some (Token opPower None)) =
     Inr (ops @ oa @ ob @ [Opcode opPower VNull] @ oc @ [Opcode opPower VNull], T3, length T3)"
    using c by (subst expression.simps) (simp add: toOpcode_def)
  have second:
    "expression A (PrecedenceGroup [opPower] None) (ops @ oa) T1 (c1 + 1)
       (Some (Token opPower None)) =
     Inr (ops @ oa @ ob @ [Opcode opPower VNull] @ oc @ [Opcode opPower VNull], T3, length T3)"
    using b p2 third
    by (subst expression.simps) (simp add: toOpcode_def halfExpression.simps)
  show ?thesis
    using a p1 second
    by (subst expression.simps) (simp add: halfExpression.simps)
qed

lemma upper_levels_at_end:
  assumes "expression A (PrecedenceGroup [opPower] None) ops T c None =
             Inr (ops', T', length T')"
  shows "parseTokens A ops T c = Inr (ops', T', length T')"
  using assms
  by (simp add: parseTokens_def expressionGroup_def over_def
        expression.simps[of A "PrecedenceGroup ks (Some p)" for ks p])

text \<open>
  C6.  Exponent chains are left-associative.  Let \<open>a\<close>, \<open>b\<close>, \<open>c\<close> be
  three primaries as \<open>_valueExpression\<close> parses them (a number, an identifier,
  a bracketed expression), with the opcodes \<open>oa\<close>, \<open>ob\<close>, \<open>oc\<close>, a power
  token after \<open>a\<close> and after \<open>b\<close>, and the end of the tokens after \<open>c\<close>:
  the parser returns \<open>oa\<close>, \<open>ob\<close>, power, \<open>oc\<close>, power.  In particular, for
  number or identifier tokens \<open>a\<close>, \<open>b\<close>, \<open>c\<close> the tokens of \<open>a**b**c\<close>
  compile to the opcodes of \<open>a\<close>, \<open>b\<close>, power, \<open>c\<close>, power.  Executed with
  number operands \<open>x\<close>, \<open>y\<close>, \<open>z\<close> on any context, this order returns
  \<open>(x ** y) ** z\<close> and leaves the context as it was.  \<open>2**3**2\<close> compiles
  so, and it returns \<open>64\<close>.
\<close>

theorem power_chain_left_associative:
  "(valueExpression A ops T c = Inr (ops @ oa, T1, c1) \<and>
    c1 < length T1 \<and> T1 ! c1 = Token opPower None \<and>
    valueExpression A (ops @ oa) T1 (c1 + 1) = Inr (ops @ oa @ ob, T2, c2) \<and>
    c2 < length T2 \<and> T2 ! c2 = Token opPower None \<and>
    valueExpression A (ops @ oa @ ob @ [Opcode opPower VNull]) T2 (c2 + 1) =
      Inr (ops @ oa @ ob @ [Opcode opPower VNull] @ oc, T3, length T3) \<longrightarrow>
     parseTokens A ops T c =
       Inr (ops @ oa @ ob @ [Opcode opPower VNull] @ oc @ [Opcode opPower VNull],
            T3, length T3))
   \<and> (ka \<in> {numberLiteral, identifierKind} \<and> kb \<in> {numberLiteral, identifierKind} \<and>
      kc \<in> {numberLiteral, identifierKind} \<longrightarrow>
       parseTokens A []
         [Token ka (Some a), Token opPower None, Token kb (Some b), Token opPower None,
          Token kc (Some c')] 0 =
       Inr ([toOpcode A (Token ka (Some a)), toOpcode A (Token kb (Some b)), Opcode opPower VNull,
             toOpcode A (Token kc (Some c')), Opcode opPower VNull],
            [Token ka (Some a), Token opPower None, Token kb (Some b), Token opPower None,
             Token kc (Some c')], 5))
   \<and> execute A [Opcode numberLiteral (VNum x), Opcode numberLiteral (VNum y), Opcode opPower VNull,
                 Opcode numberLiteral (VNum z), Opcode opPower VNull]
         n (h(n := DefaultCalculationContext s r)) =
       (Inr (js_pow A (js_pow A x y) z), h(n := DefaultCalculationContext s r))
   \<and> newProgram A ''2**3**2'' =
       Inr [Opcode numberLiteral (VNum (js_parse A ''2'')),
            Opcode numberLiteral (VNum (js_parse A ''3'')), Opcode opPower VNull,
            Opcode numberLiteral (VNum (js_parse A ''2'')), Opcode opPower VNull]
   \<and> executeNew exactArith
         [Opcode numberLiteral (VNum (js_parse exactArith ''2'')),
          Opcode numberLiteral (VNum (js_parse exactArith ''3'')), Opcode opPower VNull,
          Opcode numberLiteral (VNum (js_parse exactArith ''2'')), Opcode opPower VNull] = Inr 64"
proof -
  have general: "parseTokens A ops T c =
       Inr (ops @ oa @ ob @ [Opcode opPower VNull] @ oc @ [Opcode opPower VNull],
            T3, length T3)"
    if "valueExpression A ops T c = Inr (ops @ oa, T1, c1)"
      "c1 < length T1" "T1 ! c1 = Token opPower None"
      "valueExpression A (ops @ oa) T1 (c1 + 1) = Inr (ops @ oa @ ob, T2, c2)"
      "c2 < length T2" "T2 ! c2 = Token opPower None"
      "valueExpression A (ops @ oa @ ob @ [Opcode opPower VNull]) T2 (c2 + 1) =
         Inr (ops @ oa @ ob @ [Opcode opPower VNull] @ oc, T3, length T3)"
    using that by (intro upper_levels_at_end power_level_chain)
  have parse: "parseTokens A []
       [Token ka (Some a), Token opPower None, Token kb (Some b), Token opPower None,
        Token kc (Some c')] 0 =
     Inr ([toOpcode A (Token ka (Some a)), toOpcode A (Token kb (Some b)), Opcode opPower VNull,
           toOpcode A (Token kc (Some c')), Opcode opPower VNull],
          [Token ka (Some a), Token opPower None, Token kb (Some b), Token opPower None,
           Token kc (Some c')], 5)"
    if "ka \<in> {numberLiteral, identifierKind}" "kb \<in> {numberLiteral, identifierKind}"
       "kc \<in> {numberLiteral, identifierKind}"
    using that by (auto simp add: parser_simps)
  have "executeNew exactArith
         [Opcode numberLiteral (VNum (js_parse exactArith ''2'')),
          Opcode numberLiteral (VNum (js_parse exactArith ''3'')), Opcode opPower VNull,
          Opcode numberLiteral (VNum (js_parse exactArith ''2'')), Opcode opPower VNull] = Inr 64"
    by (simp add: executeNew_alt execute_power_chain)
       (simp add: exactArith_def decimal_small exactPow_small)
  with parse general show ?thesis
    by (simp add: execute_power_chain newProgram_2_pow_3_pow_2)
qed

theorem power_chain_left_associative_witness:
  "valueExpression exactArith []
     [Token openBracket None, Token numberLiteral (Some ''1''), Token closeBracket None,
      Token opPower None, Token identifierKind (Some ''b''), Token opPower None,
      Token numberLiteral (Some ''2'')] 0 =
     Inr ([] @ [Opcode numberLiteral (VNum 1)],
          [Token openBracket None, Token numberLiteral (Some ''1''), Token closeBracket None,
           Token opPower None, Token identifierKind (Some ''b''), Token opPower None,
           Token numberLiteral (Some ''2'')], 3)
   \<and> parseTokens exactArith []
       [Token openBracket None, Token numberLiteral (Some ''1''), Token closeBracket None,
        Token opPower None, Token identifierKind (Some ''b''), Token opPower None,
        Token numberLiteral (Some ''2'')] 0 =
       Inr ([Opcode numberLiteral (VNum 1), Opcode identifierKind (VStr ''b''),
             Opcode opPower VNull, Opcode numberLiteral (VNum 2), Opcode opPower VNull],
            [Token openBracket None, Token numberLiteral (Some ''1''), Token closeBracket None,
             Token opPower None, Token identifierKind (Some ''b''), Token opPower None,
             Token numberLiteral (Some ''2'')], 7)
   \<and> numberLiteral \<in> {numberLiteral, identifierKind}
   \<and> parseTokens exactArith []
       [Token numberLiteral (Some ''2''), Token opPower None, Token numberLiteral (Some ''3''),
        Token opPower None, Token numberLiteral (Some ''2'')] 0 =
     Inr ([Opcode numberLiteral (VNum 2), Opcode numberLiteral (VNum 3), Opcode opPower VNull,
           Opcode numberLiteral (VNum 2), Opcode opPower VNull],
          [Token numberLiteral (Some ''2''), Token opPower None, Token numberLiteral (Some ''3''),
           Token opPower None, Token numberLiteral (Some ''2'')], 5)"
proof -
  let ?T = "[Token openBracket None, Token numberLiteral (Some ''1''), Token closeBracket None,
      Token opPower None, Token identifierKind (Some ''b''), Token opPower None,
      Token numberLiteral (Some ''2'')]"
  have a: "valueExpression exactArith [] ?T 0 = Inr ([] @ [Opcode numberLiteral (VNum 1)], ?T, 3)"
    by (simp add: parser_simps exactArith_def decimal_small)
  have b: "valueExpression exactArith ([] @ [Opcode numberLiteral (VNum 1)]) ?T (3 + 1) =
             Inr ([] @ [Opcode numberLiteral (VNum 1)] @ [Opcode identifierKind (VStr ''b'')], ?T, 5)"
    by (simp add: parser_simps)
  have c: "valueExpression exactArith
             ([] @ [Opcode numberLiteral (VNum 1)] @ [Opcode identifierKind (VStr ''b'')] @
              [Opcode opPower VNull]) ?T (5 + 1) =
             Inr ([] @ [Opcode numberLiteral (VNum 1)] @ [Opcode identifierKind (VStr ''b'')] @
                  [Opcode opPower VNull] @ [Opcode numberLiteral (VNum 2)], ?T, length ?T)"
    by (simp add: parser_simps exactArith_def decimal_small)
  have p: "3 < length ?T" "?T ! 3 = Token opPower None" "5 < length ?T"
    "?T ! 5 = Token opPower None"
    by simp_all
  have first: "parseTokens exactArith [] ?T 0 =
       Inr ([Opcode numberLiteral (VNum 1), Opcode identifierKind (VStr ''b''),
             Opcode opPower VNull, Opcode numberLiteral (VNum 2), Opcode opPower VNull], ?T, 7)"
    using power_chain_left_associative[of exactArith "[]" ?T 0 "[Opcode numberLiteral (VNum 1)]"
        ?T 3 "[Opcode identifierKind (VStr ''b'')]" ?T 5 "[Opcode numberLiteral (VNum 2)]" ?T]
      a b c p
    by simp
  have second: "parseTokens exactArith []
       [Token numberLiteral (Some ''2''), Token opPower None, Token numberLiteral (Some ''3''),
        Token opPower None, Token numberLiteral (Some ''2'')] 0 =
     Inr ([Opcode numberLiteral (VNum 2), Opcode numberLiteral (VNum 3), Opcode opPower VNull,
           Opcode numberLiteral (VNum 2), Opcode opPower VNull],
          [Token numberLiteral (Some ''2''), Token opPower None, Token numberLiteral (Some ''3''),
           Token opPower None, Token numberLiteral (Some ''2'')], 5)"
    using power_chain_left_associative[of exactArith _ _ _ _ _ _ _ _ _ _ _
        numberLiteral numberLiteral numberLiteral "''2''" "''3''" "''2''"]
    by (simp add: toOpcode_def exactArith_def decimal_small)
  from a first second show ?thesis by simp
qed

subsection \<open>Assignment (C7)\<close>

lemma newProgram_a_is_5:
  "newProgram A ''a=5'' =
     Inr [Opcode identifierKind (VStr ''a''), Opcode numberLiteral (VNum (js_parse A ''5'')),
          Opcode opAssign VNull]"
  by (simp add: newProgram_def tokenize_a_is_5 parser_simps)

lemma execute_assign_a:
  "execute A [Opcode identifierKind (VStr ''a''), Opcode numberLiteral (VNum x),
              Opcode opAssign VNull] c (h(c := newCalculationContext)) =
     (Inr x, h(c := DefaultCalculationContext [] [(''a'', x)]))"
  by (simp add: exec_simps)

lemma execute_a_plus_1_set:
  "execute A [Opcode identifierKind (VStr ''a''), Opcode numberLiteral (VNum y),
              Opcode opAdd VNull] c (h(c := DefaultCalculationContext [] [(''a'', x)])) =
     (Inr (js_add A y x), h(c := DefaultCalculationContext [] [(''a'', x)]))"
  by (simp add: exec_simps)

lemma perform_assign_reference:
  "perform A (Opcode opAssign v) n
     (h(n := DefaultCalculationContext (s @ [VariableReference name ctx, Literal x]) r)) =
   (Inr (), pushStack n (Literal x)
              (setRegister ctx name x (h(n := DefaultCalculationContext s r))))"
  by (simp add: perform_def andThen_def popValue_def popStack_def pushLiteral_def
        butlast_append last_append)

lemma perform_assign_literal:
  "perform A (Opcode opAssign v) n
     (h(n := DefaultCalculationContext (s @ [Literal y, Literal x]) r)) =
   (Inl (CalculationException ''You can't set a value to a literal''),
    h(n := DefaultCalculationContext s r))"
  by (simp add: exec_simps)

lemma perform_assign_no_target:
  "perform A (Opcode opAssign v) n (h(n := DefaultCalculationContext [Literal x] r)) =
   (Inl TypeError, h(n := DefaultCalculationContext [] r))"
  by (simp add: exec_simps)

text \<open>
  C7.  On a new context, \<open>a=5\<close> returns \<open>5\<close> and leaves register \<open>a\<close> at
  \<open>5\<close> (and the stack empty); \<open>a+1\<close> on that context then returns \<open>6\<close>.
  The assign rule pops the value, then the target; with a variable reference
  as target it writes the value to the register of that name in the context of
  the reference and pushes the value as a literal; with a literal as target it
  throws the exception of the literal's setter, and with no target at all the
  write to \<open>null\<close> raises \<open>TypeError\<close> (in both cases the elements stay
  popped).
\<close>

theorem assign_writes_register:
  "newProgram A ''a=5'' =
     Inr [Opcode identifierKind (VStr ''a''), Opcode numberLiteral (VNum (js_parse A ''5'')),
          Opcode opAssign VNull]
   \<and> execute A [Opcode identifierKind (VStr ''a''), Opcode numberLiteral (VNum x),
                 Opcode opAssign VNull] c (h(c := newCalculationContext)) =
       (Inr x, h(c := DefaultCalculationContext [] [(''a'', x)]))
   \<and> fst (getRegister A c ''a'' (h(c := DefaultCalculationContext [] [(''a'', x)]))) = Some x
   \<and> newProgram A ''a+1'' =
       Inr [Opcode identifierKind (VStr ''a''), Opcode numberLiteral (VNum (js_parse A ''1'')),
            Opcode opAdd VNull]
   \<and> execute A [Opcode identifierKind (VStr ''a''), Opcode numberLiteral (VNum y),
                 Opcode opAdd VNull] c (h(c := DefaultCalculationContext [] [(''a'', x)])) =
       (Inr (js_add A y x), h(c := DefaultCalculationContext [] [(''a'', x)]))
   \<and> execute exactArith
         [Opcode identifierKind (VStr ''a''),
          Opcode numberLiteral (VNum (js_parse exactArith ''5'')), Opcode opAssign VNull]
         c' (h'(c' := newCalculationContext)) =
       (Inr 5, h'(c' := DefaultCalculationContext [] [(''a'', 5)]))
   \<and> execute exactArith
         [Opcode identifierKind (VStr ''a''),
          Opcode numberLiteral (VNum (js_parse exactArith ''1'')), Opcode opAdd VNull]
         c' (h'(c' := DefaultCalculationContext [] [(''a'', 5)])) =
       (Inr 6, h'(c' := DefaultCalculationContext [] [(''a'', 5)]))
   \<and> perform A (Opcode opAssign v) n
         (h(n := DefaultCalculationContext (s @ [VariableReference name ctx, Literal x]) r)) =
       (Inr (), pushStack n (Literal x)
                  (setRegister ctx name x (h(n := DefaultCalculationContext s r))))
   \<and> perform A (Opcode opAssign v) n
         (h(n := DefaultCalculationContext (s @ [Literal z, Literal x]) r)) =
       (Inl (CalculationException ''You can't set a value to a literal''),
        h(n := DefaultCalculationContext s r))
   \<and> perform A (Opcode opAssign v) n (h(n := DefaultCalculationContext [Literal x] r)) =
       (Inl TypeError, h(n := DefaultCalculationContext [] r))"
proof -
  have five: "js_parse exactArith ''5'' = 5" and one: "js_parse exactArith ''1'' = 1"
    and six: "js_add exactArith 1 5 = 6"
    by (simp_all add: exactArith_def decimal_small)
  have "execute exactArith
         [Opcode identifierKind (VStr ''a''),
          Opcode numberLiteral (VNum (js_parse exactArith ''5'')), Opcode opAssign VNull]
         c' (h'(c' := newCalculationContext)) =
       (Inr 5, h'(c' := DefaultCalculationContext [] [(''a'', 5)]))"
    unfolding five by (rule execute_assign_a)
  moreover have "execute exactArith
         [Opcode identifierKind (VStr ''a''),
          Opcode numberLiteral (VNum (js_parse exactArith ''1'')), Opcode opAdd VNull]
         c' (h'(c' := DefaultCalculationContext [] [(''a'', 5)])) =
       (Inr 6, h'(c' := DefaultCalculationContext [] [(''a'', 5)]))"
    unfolding one using execute_a_plus_1_set[of exactArith 1 c' h' 5] by (simp only: six)
  moreover have "fst (getRegister A c ''a'' (h(c := DefaultCalculationContext [] [(''a'', x)]))) = Some x"
    by (simp add: getRegister_def)
  ultimately show ?thesis
    by (simp only: newProgram_a_is_5 newProgram_a_plus_1 execute_assign_a execute_a_plus_1_set
          perform_assign_reference perform_assign_literal perform_assign_no_target simp_thms)
qed

subsection \<open>A bracket that is not closed (C8)\<close>

text \<open>
  C8.  Claimed: a source with an open bracket and no closing bracket, such as
  \<open>(1+2\<close>, raises the parse error for the missing closing bracket.  In the
  code the test for the closing bracket reads the token at the cursor; after
  \<open>(1+2\<close> the cursor is at the end of the tokens, the read gives
  \<open>undefined\<close>, and its \<open>kind\<close> raises \<open>TypeError\<close>.  The parse exception
  is raised only when a token other than the closing bracket follows, as in
  \<open>(1 2\<close>.  No program is produced in either case.
\<close>

theorem unclosed_bracket_at_end_raises_TypeError:
  "newProgram A ''(1+2'' = Inl TypeError
   \<and> newProgram A ''(1 2'' =
       Inl (CalculationParseException ''Ouch, no closing bracket'' None None)"
  by (simp add: newProgram_def tokenize_open_1_plus_2 tokenize_open_1_2 parser_simps)

subsection \<open>A character that starts no token (C9)\<close>

lemma tokenize_from_error_reached:
  "reaches buffer i \<Longrightarrow> tokenize_from buffer i = Inl e \<Longrightarrow> tokenize_from buffer 0 = Inl e"
proof (induction rule: reaches.induct)
  case start
  then show ?case by simp
next
  case (space i)
  from space.prems space.hyps(2,3) have "tokenize_from buffer i = Inl e"
    by (subst tokenize_from.simps) simp
  then show ?case by (rule space.IH)
next
  case (symbolic i single)
  from symbolic.prems symbolic.hyps(2-4) have "tokenize_from buffer i = Inl e"
    by (subst tokenize_from.simps) simp
  then show ?case by (rule symbolic.IH)
next
  case (pattern i k m)
  from pattern.prems pattern.hyps(2-5) have "tokenize_from buffer i = Inl e"
    by (subst tokenize_from.simps) simp
  then show ?case by (rule pattern.IH)
qed

lemma matchPattern_None:
  "reNumber (drop i buffer) = None \<Longrightarrow> reIdentifier (drop i buffer) = None \<Longrightarrow>
   matchPattern patternTokens buffer i = None"
  by (simp add: patternTokens_def)

lemma tokenize_1_plus_at:
  "tokenize ''1+@'' =
     Inl (CalculationParseException ''Found a strange character in the source at 2: @''
            (Some ''1+@'') (Some 2))"
  by code_simp

text \<open>
  C9.  When the loop of the tokenizer comes to a position that is not a space
  and where no symbol, no number and no identifier matches, tokenizing (and so
  \<open>newProgram\<close>) raises the parse exception whose message names the position
  and the character there, with the whole buffer and the position as offset.
  Positions count the elements of the string.  For \<open>1+@\<close> the offset is
  \<open>2\<close>.
\<close>

theorem tokenize_strange_character:
  "(reaches buffer i \<and> i < length buffer \<and> buffer ! i \<noteq> CHR '' '' \<and>
    findToken (startCharacterTokens (buffer ! i)) buffer i = None \<and>
    reNumber (drop i buffer) = None \<and> reIdentifier (drop i buffer) = None \<longrightarrow>
      tokenize buffer =
        Inl (CalculationParseException
               (''Found a strange character in the source at '' @ showNat i @ '': '' @
                [buffer ! i])
               (Some buffer) (Some i))
      \<and> newProgram A buffer =
        Inl (CalculationParseException
               (''Found a strange character in the source at '' @ showNat i @ '': '' @
                [buffer ! i])
               (Some buffer) (Some i)))
   \<and> newProgram A ''1+@'' =
       Inl (CalculationParseException ''Found a strange character in the source at 2: @''
              (Some ''1+@'') (Some 2))"
proof -
  have general: "tokenize buffer = Inl (strangeCharacter buffer i)"
    if r: "reaches buffer i" and i: "i < length buffer" "buffer ! i \<noteq> CHR '' ''"
      and none: "findToken (startCharacterTokens (buffer ! i)) buffer i = None"
        "reNumber (drop i buffer) = None" "reIdentifier (drop i buffer) = None"
  proof -
    have "tokenize_from buffer i = Inl (strangeCharacter buffer i)"
      using i none by (subst tokenize_from.simps) (simp add: matchPattern_None)
    with r show ?thesis
      unfolding tokenize_def by (rule tokenize_from_error_reached)
  qed
  then show ?thesis
    by (auto simp: newProgram_def strangeCharacter_def tokenize_1_plus_at)
qed

theorem tokenize_strange_character_witness:
  "reaches ''1+@'' 2 \<and> 2 < length ''1+@'' \<and> ''1+@'' ! 2 \<noteq> CHR '' '' \<and>
   findToken (startCharacterTokens (''1+@'' ! 2)) ''1+@'' 2 = None \<and>
   reNumber (drop 2 ''1+@'') = None \<and> reIdentifier (drop 2 ''1+@'') = None \<and>
   tokenize ''1+@'' =
     Inl (CalculationParseException ''Found a strange character in the source at 2: @''
            (Some ''1+@'') (Some 2))"
proof -
  have r1: "reaches ''1+@'' 1"
    using reaches.pattern[OF reaches.start, of "''1+@''" numberLiteral "''1''"]
    by (simp add: patternTokens_def reNumber_def reIntegerPart_def reFraction_def
          reExponent_def isDigit_def findToken_def startCharacterTokens_def tokenDefinitions_def)
  have r2: "reaches ''1+@'' 2"
    using reaches.symbolic[OF r1, of "KindDefinition opAdd (Some ''+'')"]
    by (simp add: findToken_def startCharacterTokens_def tokenDefinitions_def startsWith_def
          numeral_2_eq_2)
  have conds: "2 < length ''1+@''" "''1+@'' ! 2 \<noteq> CHR '' ''"
   "findToken (startCharacterTokens (''1+@'' ! 2)) ''1+@'' 2 = None"
   "reNumber (drop 2 ''1+@'') = None" "reIdentifier (drop 2 ''1+@'') = None"
    by (simp_all add: findToken_def startCharacterTokens_def tokenDefinitions_def
          reNumber_def reIntegerPart_def reIdentifier_def isDigit_def isIdentStart_def)
  show ?thesis
    using tokenize_strange_character[of "''1+@''" 2 exactArith] r2 conds
    by (simp add: showNat.simps)
qed

subsection \<open>Tokens after the expression (C10)\<close>

lemma kinds_allKinds: "set (kinds g) \<subseteq> set (allKinds g)"
  by (induction g rule: allKinds.induct) auto

lemma parent_allKinds: "parent g = Some p \<Longrightarrow> set (allKinds p) \<subseteq> set (allKinds g)"
  by (induction g rule: allKinds.induct) auto

lemma parser_progress:
  "valueExpression A ops tokens cursor = Inr (ops1, tokens1, c1) \<Longrightarrow>
     cursor < c1 \<and> c1 \<le> length tokens \<and> length tokens1 = length tokens"
  "halfExpression A g ops tokens cursor = Inr (ops2, tokens2, c2) \<Longrightarrow>
     cursor \<le> c2 \<and> c2 \<le> length tokens \<and> length tokens2 = length tokens"
  "expression A g ops tokens cursor l = Inr (ops3, tokens3, c3) \<Longrightarrow>
     cursor < c3 \<and> c3 \<le> length tokens \<and> length tokens3 = length tokens"
proof (induct A ops tokens cursor and A g ops tokens cursor and A g ops tokens cursor l
       arbitrary: ops1 tokens1 c1 and ops2 tokens2 c2 and ops3 tokens3 c3
       rule: valueExpression_halfExpression_expression.induct)
  case (1 A ops tokens cursor)
  show ?case
  proof (cases "\<not> length tokens \<le> cursor \<and> tkind (tokens ! cursor) = openBracket")
    case True
    with 1(2) obtain o' t' c' where
      e: "expression A expressionGroup ops tokens (cursor + 1) None = Inr (o', t', c')"
      and r: "tokens1 = t'" "c1 = c' + 1" "c' < length t'"
      by (subst (asm) valueExpression.simps)
         (auto simp: Let_def split: if_splits sum.splits prod.splits)
    from 1(1)[OF _ refl _ e] True
    have "cursor + 1 < c' \<and> c' \<le> length tokens \<and> length t' = length tokens" by simp
    with r show ?thesis by simp
  next
    case False
    with 1(2) show ?thesis
      by (subst (asm) valueExpression.simps)
         (auto simp: Let_def split: if_splits sum.splits prod.splits)
  qed
next
  case (2 A g ops tokens cursor)
  from 2(2) show ?case
    by (subst (asm) halfExpression.simps) (use 2(1) in \<open>fastforce split: if_splits\<close>)
next
  case (3 A g ops tokens cursor lastTokenOp)
  from 3(4) show ?case
    by (subst (asm) expression.simps)
       (use 3(1-3) in \<open>fastforce simp: Let_def
          split: if_splits sum.splits prod.splits option.splits\<close>)
qed


lemma parser_extra_tokens:
  assumes x: "tkind x \<notin> set (allKinds expressionGroup)"
  shows
  "valueExpression A ops E cursor = Inr (ops1, E1, c1) \<Longrightarrow>
     valueExpression A ops (E @ x # xs) cursor = Inr (ops1, E1 @ x # xs, c1)"
  "set (allKinds g) \<subseteq> set (allKinds expressionGroup) \<Longrightarrow>
   halfExpression A g ops E cursor = Inr (ops2, E2, c2) \<Longrightarrow>
     halfExpression A g ops (E @ x # xs) cursor = Inr (ops2, E2 @ x # xs, c2)"
  "set (allKinds g) \<subseteq> set (allKinds expressionGroup) \<Longrightarrow>
   expression A g ops E cursor l = Inr (ops3, E3, c3) \<Longrightarrow>
     expression A g ops (E @ x # xs) cursor l = Inr (ops3, E3 @ x # xs, c3)"
proof (induct A ops E cursor and A g ops E cursor and A g ops E cursor l
       arbitrary: ops1 E1 c1 and ops2 E2 c2 and ops3 E3 c3
       rule: valueExpression_halfExpression_expression.induct)
  case (1 A ops E cursor)
  from 1(2) have in_range: "cursor < length E"
    by (subst (asm) valueExpression.simps) (simp split: if_splits)
  show ?case
  proof (cases "tkind (E ! cursor) = openBracket")
    case True
    with 1(2) in_range obtain o' t' c' where
      e: "expression A expressionGroup ops E (cursor + 1) None = Inr (o', t', c')"
      and r: "ops1 = o'" "E1 = t'" "c1 = c' + 1" "c' < length t'"
        "tkind (t' ! c') = closeBracket"
      by (subst (asm) valueExpression.simps)
         (auto simp: Let_def split: if_splits sum.splits prod.splits)
    from in_range True have
      "expression A expressionGroup ops (E @ x # xs) (cursor + 1) None =
         Inr (o', t' @ x # xs, c')"
      by (intro 1(1)[OF _ refl _ _ e]) simp_all
    with in_range True r show ?thesis
      by (subst valueExpression.simps) (simp add: nth_append)
  next
    case False
    with 1(2) in_range show ?thesis
      by (subst (asm) valueExpression.simps, subst valueExpression.simps)
         (auto simp: Let_def nth_append list_update_append split: if_splits)
  qed
next
  case (2 A g ops E cursor)
  from 2(3) have in_range: "cursor < length E"
    by (subst (asm) halfExpression.simps) (simp split: if_splits)
  show ?case
  proof (cases "tkind (E ! cursor) \<in> set (kinds g)")
    case True
    with 2(3) in_range have
      "expression A g ops E (cursor + 1) (Some (E ! cursor)) = Inr (ops2, E2, c2)"
      by (subst (asm) halfExpression.simps) simp
    with in_range True 2(2) have
      "expression A g ops (E @ x # xs) (cursor + 1) (Some (E ! cursor)) =
         Inr (ops2, E2 @ x # xs, c2)"
      by (intro 2(1)) simp_all
    with in_range True show ?thesis
      by (subst halfExpression.simps) (simp add: nth_append)
  next
    case False
    with 2(3) in_range show ?thesis
      by (subst (asm) halfExpression.simps, subst halfExpression.simps)
         (simp add: nth_append)
  qed
next
  case (3 A g ops E cursor lastTokenOp)
  let ?inner = "\<lambda>tokens. case parent g of
                  Some p \<Rightarrow> expression A p ops tokens cursor None
                | None \<Rightarrow> valueExpression A ops tokens cursor"
  from 3(5) obtain o1 t1 aT where
    inner: "?inner E = Inr (o1, t1, aT)"
    by (subst (asm) expression.simps) (auto split: sum.splits)
  define ops'' where
    "ops'' = (case lastTokenOp of None \<Rightarrow> o1 | Some t \<Rightarrow> o1 @ [toOpcode A t])"
  have bounds: "aT \<le> length E" "length t1 = length E"
    using inner by (auto split: option.splits dest: parser_progress(1,3))
  have inner': "?inner (E @ x # xs) = Inr (o1, t1 @ x # xs, aT)"
  proof (cases "parent g")
    case None
    with inner 3(1) show ?thesis by simp
  next
    case (Some p)
    with inner 3(2)[OF Some] parent_allKinds[OF Some] 3(4) show ?thesis by auto
  qed
  show ?case
  proof (cases "aT < length t1")
    case True
    with 3(5) inner have
      h: "halfExpression A g ops'' t1 aT = Inr (ops3, E3, c3)"
      by (subst (asm) expression.simps) (simp add: ops''_def Let_def)
    have "halfExpression A g ops'' (t1 @ x # xs) aT = Inr (ops3, E3 @ x # xs, c3)"
      by (rule 3(3)[OF inner refl refl ops''_def True 3(4) h])
    with inner' True show ?thesis
      by (subst expression.simps) (simp add: ops''_def Let_def)
  next
    case False
    with 3(5) inner have res: "ops3 = ops''" "E3 = t1" "c3 = aT"
      by (subst (asm) expression.simps, simp add: ops''_def Let_def)+
    from False bounds have at: "aT = length t1" by simp
    have "tkind x \<notin> set (kinds g)"
      using x 3(4) kinds_allKinds[of g] by auto
    then have "halfExpression A g ops'' (t1 @ x # xs) aT = Inr (ops'', t1 @ x # xs, aT)"
      by (subst halfExpression.simps) (simp add: at)
    with inner' res at show ?thesis
      by (subst expression.simps) (simp add: ops''_def Let_def)
  qed
qed


lemma allKinds_expressionGroup:
  "set (allKinds expressionGroup) =
     {opPower, opMultiply, opDivide, opAdd, opSubtract, opAssign}"
  by (auto simp: expressionGroup_def over_def)

lemma tokenize_1_2:
  "tokenize ''1 2'' = Inr [Token numberLiteral (Some ''1''), Token numberLiteral (Some ''2'')]"
  by code_simp

lemma tokenize_1_close:
  "tokenize ''1)'' = Inr [Token numberLiteral (Some ''1''), Token closeBracket None]"
  by code_simp

lemma tokenize_1: "tokenize ''1'' = Inr [Token numberLiteral (Some ''1'')]"
  by code_simp

lemma parseTokens_1:
  "parseTokens A [] [Token numberLiteral (Some ''1'')] 0 =
     Inr ([Opcode numberLiteral (VNum (js_parse A ''1''))], [Token numberLiteral (Some ''1'')], 1)"
  by (simp add: parser_simps)

lemma tokenize_1_plus:
  "tokenize ''1 +'' = Inr [Token numberLiteral (Some ''1''), Token opAdd None]"
  by code_simp

text \<open>
  C10.  Claimed: whenever the tokens are one complete expression followed by
  extra tokens, \<open>newProgram\<close> succeeds with the opcodes of that expression.
  As stated this fails when the first extra token is a binary operator, which
  the parser takes as the continuation of the expression: the tokens of
  \<open>1 +\<close> are the complete expression \<open>1\<close> and the extra token \<open>+\<close>, and
  \<open>newProgram\<close> raises \<open>TypeError\<close> when it reads the operand that is not
  there.
\<close>

theorem trailing_operator_raises_TypeError:
  "tokenize ''1 +'' = Inr ([Token numberLiteral (Some ''1'')] @ [Token opAdd None])
   \<and> parseTokens exactArith [] [Token numberLiteral (Some ''1'')] 0 =
       Inr ([Opcode numberLiteral (VNum 1)], [Token numberLiteral (Some ''1'')],
            length [Token numberLiteral (Some ''1'')])
   \<and> newProgram exactArith ''1 +'' = Inl TypeError"
  by (simp add: newProgram_def tokenize_1_plus parser_simps exactArith_def decimal_small)

text \<open>
  C10, amended.  Tokens after a complete expression are dropped without an
  error when the first of them is not a binary operator.  Let the tokens of
  the source be \<open>E\<close> followed by at least one more token, where parsing \<open>E\<close>
  alone succeeds and consumes all of \<open>E\<close>, and where the first extra token
  is a number, an identifier or a bracket.  Then \<open>newProgram\<close> succeeds with
  exactly the opcodes of \<open>E\<close>.  So \<open>1 2\<close> and \<open>1)\<close> give the program of
  \<open>1\<close>.
\<close>

theorem trailing_tokens_discarded:
  "(tokenize source = Inr (E @ x # xs) \<and>
    parseTokens A [] E 0 = Inr (ops, E', length E) \<and>
    tkind x \<notin> {opPower, opMultiply, opDivide, opAdd, opSubtract, opAssign} \<longrightarrow>
      newProgram A source = Inr ops)
   \<and> newProgram A ''1'' = Inr [Opcode numberLiteral (VNum (js_parse A ''1''))]
   \<and> newProgram A ''1 2'' = Inr [Opcode numberLiteral (VNum (js_parse A ''1''))]
   \<and> newProgram A ''1)'' = Inr [Opcode numberLiteral (VNum (js_parse A ''1''))]"
proof -
  have general: "newProgram A source = Inr ops"
    if t: "tokenize source = Inr (E @ x # xs)"
      and p: "parseTokens A [] E 0 = Inr (ops, E', length E)"
      and x: "tkind x \<notin> {opPower, opMultiply, opDivide, opAdd, opSubtract, opAssign}"
    for source E x xs ops E'
  proof -
    from x have "tkind x \<notin> set (allKinds expressionGroup)"
      by (simp add: allKinds_expressionGroup)
    then have "expression A expressionGroup [] (E @ x # xs) 0 None =
                 Inr (ops, E' @ x # xs, length E)"
      using p unfolding parseTokens_def by (intro parser_extra_tokens(3)) simp_all
    with t show ?thesis
      by (simp add: newProgram_def parseTokens_def)
  qed
  have one: "newProgram A ''1'' = Inr [Opcode numberLiteral (VNum (js_parse A ''1''))]"
    by (simp add: newProgram_def tokenize_1 parseTokens_1)
  have "newProgram A ''1 2'' = Inr [Opcode numberLiteral (VNum (js_parse A ''1''))]"
    using general[of "''1 2''" "[Token numberLiteral (Some ''1'')]"
            "Token numberLiteral (Some ''2'')" "[]"]
    by (simp add: tokenize_1_2 parseTokens_1)
  moreover
  have "newProgram A ''1)'' = Inr [Opcode numberLiteral (VNum (js_parse A ''1''))]"
    using general[of "''1)''" "[Token numberLiteral (Some ''1'')]"
            "Token closeBracket None" "[]"]
    by (simp add: tokenize_1_close parseTokens_1)
  ultimately show ?thesis
    using general one by blast
qed

theorem trailing_tokens_discarded_witness:
  "tokenize ''1 2'' = Inr ([Token numberLiteral (Some ''1'')] @ Token numberLiteral (Some ''2'') # [])
   \<and> parseTokens exactArith [] [Token numberLiteral (Some ''1'')] 0 =
       Inr ([Opcode numberLiteral (VNum 1)], [Token numberLiteral (Some ''1'')],
            length [Token numberLiteral (Some ''1'')])
   \<and> tkind (Token numberLiteral (Some ''2'')) \<notin>
       {opPower, opMultiply, opDivide, opAdd, opSubtract, opAssign}
   \<and> newProgram exactArith ''1 2'' = Inr [Opcode numberLiteral (VNum 1)]"
  using trailing_tokens_discarded[of "''1 2''" "[Token numberLiteral (Some ''1'')]"
          "Token numberLiteral (Some ''2'')" "[]" exactArith "[Opcode numberLiteral (VNum 1)]"
          "[Token numberLiteral (Some ''1'')]"]
  by (simp add: tokenize_1_2 parseTokens_1 exactArith_def decimal_small)

end
